theory Spec2Isabelle
  imports Complex_Main "HOL-Library.Sublist"
begin

section \<open>Python values, strings and query objects\<close>

text \<open>
  The query builders of \<^verbatim>\<open>database/charts.py\<close> and \<^verbatim>\<open>database/accounts.py\<close> are
  pure functions from their arguments to query objects (an SQL text with positional
  placeholders \<^verbatim>\<open>$1, $2, ...\<close> and the ordered values bound to them), or they raise
  \<^verbatim>\<open>ValueError\<close>. Strings are \<^typ>\<open>string\<close>, Python's unbounded integers are
  \<^typ>\<open>int\<close>, an \<^verbatim>\<open>Optional[T]\<close> argument is a \<^typ>\<open>'a option\<close>, and a raise is the
  \<open>Inl\<close> side of a sum.
\<close>

datatype error = ValueError string | OverflowError string

text \<open>
  A number as \<^verbatim>\<open>update_metadata\<close> receives it (\<^verbatim>\<open>Union[int, float, Decimal]\<close>). A
  float or a decimal is a finite value, kept as a rational, or an infinity (with its
  sign), or not a number.
\<close>

datatype fvalue = Finite rat | Infinity bool | NaN

datatype number = PyInt int | PyFloat fvalue | PyDecimal fvalue

text \<open>
  \<^verbatim>\<open>float(i)\<close> of an integer: the nearest number with 53 significant bits, a tie going
  to the even one, and \<^verbatim>\<open>OverflowError\<close> when that is \<open>2 ^ 1024\<close> or more.
\<close>

fun bit_length :: "nat \<Rightarrow> nat" where
  "bit_length n = (if n = 0 then 0 else Suc (bit_length (n div 2)))"

declare bit_length.simps [simp del]

definition round_53 :: "nat \<Rightarrow> nat" where
  "round_53 n =
     (let e = bit_length n - 53; q = n div 2 ^ e; r = n mod 2 ^ e
      in if e = 0 then n
         else if 2 ^ e < 2 * r \<or> (2 * r = 2 ^ e \<and> odd q) then (q + 1) * 2 ^ e
         else q * 2 ^ e)"

definition py_float :: "int \<Rightarrow> error + fvalue" where
  "py_float i =
     (let m = round_53 (nat \<bar>i\<bar>)
      in if 2 ^ 1024 \<le> m then Inl (OverflowError ''int too large to convert to float'')
         else Inr (Finite (of_int (sgn i * int m))))"

text \<open>The values that are bound to placeholders.\<close>

datatype param = PStr string | PInt int | PBool bool | PStrList "string list" | PNum number

text \<open>
  \<^verbatim>\<open>ExecutableQuery(sql, *args)\<close> and \<^verbatim>\<open>SelectQuery(model, sql, *args)\<close>. The classes are
  declared in \<^verbatim>\<open>database/query.py\<close>; \<^verbatim>\<open>DBConnWrapper\<close> reads their attributes
  \<^verbatim>\<open>sql\<close>, \<^verbatim>\<open>args\<close> and \<^verbatim>\<open>model\<close>, which are the fields here. The model class
  is kept by its name.
\<close>

record executable_query =
  sql :: string
  args :: "param list"

record select_query = executable_query +
  model :: string

definition ExecutableQuery :: "string \<Rightarrow> param list \<Rightarrow> executable_query" where
  "ExecutableQuery q xs = \<lparr>sql = q, args = xs\<rparr>"

definition SelectQuery :: "string \<Rightarrow> string \<Rightarrow> param list \<Rightarrow> select_query" where
  "SelectQuery m q xs = \<lparr>sql = q, args = xs, model = m\<rparr>"

subsection \<open>String operations\<close>

text \<open>\<^verbatim>\<open>str(n)\<close> of a non-negative integer: its decimal digits.\<close>

definition digit_char :: "nat \<Rightarrow> char" where
  "digit_char d = ''0123456789'' ! (d mod 10)"

fun show_nat :: "nat \<Rightarrow> string" where
  "show_nat n = (if n < 10 then [digit_char n] else show_nat (n div 10) @ [digit_char (n mod 10)])"

declare show_nat.simps [simp del]

text \<open>\<^verbatim>\<open>sep.join(xs)\<close>.\<close>

fun join :: "string \<Rightarrow> string list \<Rightarrow> string" where
  "join sep [] = []"
| "join sep [x] = x"
| "join sep (x # y # ys) = x @ sep @ join sep (y # ys)"

text \<open>
  \<^verbatim>\<open>s.lower()\<close>. The characters of a \<^typ>\<open>string\<close> are bytes; the letters \<open>A\<close> to
  \<open>Z\<close> are mapped to \<open>a\<close> to \<open>z\<close> and every other character is kept, which is
  what Python does on ASCII text. Python also maps the cased letters beyond ASCII, which
  this function does not: what is proved of a lower-cased value is proved of ASCII
  strings (\<open>ascii\<close> below) only.
\<close>

definition lower_char :: "char \<Rightarrow> char" where
  "lower_char c =
     (case map_of (zip ''ABCDEFGHIJKLMNOPQRSTUVWXYZ'' ''abcdefghijklmnopqrstuvwxyz'') c of
        Some l \<Rightarrow> l
      | None \<Rightarrow> c)"

definition lower :: "string \<Rightarrow> string" where
  "lower s = map lower_char s"

definition ascii :: "string \<Rightarrow> bool" where
  "ascii s = list_all (\<lambda>c. (of_char c :: nat) < 128) s"

text \<open>
  Python's truth test on an optional argument, \<^verbatim>\<open>if x:\<close>. It gives the value when the
  branch is taken: \<^verbatim>\<open>None\<close>, the empty string, the empty list and \<^verbatim>\<open>0\<close> are all
  false.
\<close>

fun truthy :: "'a list option \<Rightarrow> 'a list option" where
  "truthy None = None"
| "truthy (Some []) = None"
| "truthy (Some (x # xs)) = Some (x # xs)"

definition truthy_int :: "int option \<Rightarrow> int option" where
  "truthy_int v = (case v of None \<Rightarrow> None | Some i \<Rightarrow> if i = 0 then None else Some i)"

section \<open>The chart list query: \<^verbatim>\<open>get_chart_list\<close>\<close>

text \<open>The keyword arguments of \<^verbatim>\<open>get_chart_list\<close>, under their names.\<close>

record chart_list_args =
  page :: int
  items_per_page :: int
  min_rating :: "int option"
  max_rating :: "int option"
  status :: "string option"
  tags :: "string list option"
  min_likes :: "int option"
  max_likes :: "int option"
  min_comments :: "int option"
  max_comments :: "int option"
  liked_by :: "string option"
  commented_by :: "string option"
  staff_pick :: "bool option"
  title_includes :: "string option"
  description_includes :: "string option"
  artists_includes :: "string option"
  author_includes :: "string option"
  sonolus_handle_is :: "int option"
  sort_by :: string
  sort_order :: string
  sonolus_id :: "string option"
  meta_includes :: "string option"
  owned_by :: "string option"

text \<open>A call that passes only the two positional arguments: every default of the signature.\<close>

definition default_args :: "int \<Rightarrow> int \<Rightarrow> chart_list_args" where
  "default_args p n =
     \<lparr>page = p, items_per_page = n, min_rating = None, max_rating = None,
      status = Some ''PUBLIC'', tags = None, min_likes = None, max_likes = None,
      min_comments = None, max_comments = None, liked_by = None, commented_by = None,
      staff_pick = None, title_includes = None, description_includes = None,
      artists_includes = None, author_includes = None, sonolus_handle_is = None,
      sort_by = ''created_at'', sort_order = ''desc'', sonolus_id = None,
      meta_includes = None, owned_by = None\<rparr>"

text \<open>
  The three local variables the function builds up: the text of the inner SELECT, the
  list \<^verbatim>\<open>conditions\<close> and the list \<^verbatim>\<open>params\<close>.
\<close>

record build_state =
  inner_select :: string
  conditions :: "string list"
  params :: "param list"

text \<open>\<^verbatim>\<open>f"${len(params)}"\<close>\<close>

definition placeholder :: "param list \<Rightarrow> string" where
  "placeholder ps = ''$'' @ show_nat (length ps)"

text \<open>
  The statement pair that nearly every filter consists of,
  \<^verbatim>\<open>params.append(v); conditions.append(f"... ${len(params)} ...")\<close>, guarded by the test
  on the argument: \<open>v\<close> is \<open>None\<close> when the guard fails, and \<open>frag\<close> builds the
  fragment around the placeholder.
\<close>

definition add_filter :: "param option \<Rightarrow> (string \<Rightarrow> string) \<Rightarrow> build_state \<Rightarrow> build_state" where
  "add_filter v frag st =
     (case v of
        None \<Rightarrow> st
      | Some p \<Rightarrow>
          (let ps = params st @ [p]
           in st\<lparr>params := ps, conditions := conditions st @ [frag (placeholder ps)]\<rparr>))"

text \<open>
  The two guarded statements that bind a parameter inside a join instead:
  \<^verbatim>\<open>params.append(v); inner_select += f"... ${len(params)} ..."\<close>.
\<close>

definition add_join :: "param option \<Rightarrow> (string \<Rightarrow> string) \<Rightarrow> build_state \<Rightarrow> build_state" where
  "add_join v frag st =
     (case v of
        None \<Rightarrow> st
      | Some p \<Rightarrow>
          (let ps = params st @ [p]
           in st\<lparr>params := ps, inner_select := inner_select st @ frag (placeholder ps)\<rparr>))"

subsection \<open>The text before the filters\<close>

definition select_columns :: string where
  "select_columns =
     ''\<newline>'' @
     ''        SELECT \<newline>'' @
     ''            c.id, \<newline>'' @
     ''            c.title, \<newline>'' @
     ''            c.artists, \<newline>'' @
     ''            c.description, \<newline>'' @
     ''            c.tags,\<newline>'' @
     ''            c.author,\<newline>'' @
     ''            c.staff_pick,\<newline>'' @
     ''            c.jacket_file_hash, \<newline>'' @
     ''            c.music_file_hash, \<newline>'' @
     ''            c.chart_file_hash,\<newline>'' @
     ''            c.preview_file_hash, \<newline>'' @
     ''            c.background_file_hash,\<newline>'' @
     ''            c.background_v3_file_hash,\<newline>'' @
     ''            c.background_v1_file_hash,\<newline>'' @
     ''            c.status,\<newline>'' @
     ''            c.rating, \<newline>'' @
     ''            c.like_count,\<newline>'' @
     ''            c.comment_count,\<newline>'' @
     ''            c.created_at,\<newline>'' @
     ''            c.published_at,\<newline>'' @
     ''            c.updated_at,\<newline>'' @
     ''            c.log_like_score,\<newline>'' @
     ''            c.chart_author || '#' || a.sonolus_handle AS author_full,\<newline>'' @
     ''            a.sonolus_handle as author_handle,\<newline>'' @
     ''            c.chart_author AS chart_design,\<newline>'' @
     ''            c.scheduled_publish\<newline>'' @
     ''    ''"

definition liked_column :: string where
  "liked_column =
     '',\<newline>'' @
     ''            CASE WHEN cl.sonolus_id IS NULL THEN FALSE ELSE TRUE END AS liked\<newline>'' @
     ''        ''"

definition from_clause :: string where
  "from_clause =
     ''\<newline>'' @
     ''        FROM charts c\<newline>'' @
     ''        JOIN accounts a ON c.author = a.sonolus_id\<newline>'' @
     ''    ''"

text \<open>
  Lines 83 to 127: the column list, the \<open>liked\<close> column when \<^verbatim>\<open>sonolus_id\<close> is given,
  the FROM clause, the join with \<^verbatim>\<open>chart_likes\<close> when \<^verbatim>\<open>liked_by\<close> is given, and
  the two empty lists.
\<close>

definition initial_state :: "chart_list_args \<Rightarrow> build_state" where
  "initial_state a =
     \<lparr>inner_select =
        select_columns
        @ (case truthy (sonolus_id a) of Some _ \<Rightarrow> liked_column | None \<Rightarrow> [])
        @ from_clause
        @ (case truthy (liked_by a) of
             Some _ \<Rightarrow> '' JOIN chart_likes clb ON c.id = clb.chart_id''
           | None \<Rightarrow> []),
      conditions = [],
      params = []\<rparr>"

subsection \<open>The filters, in the order of the source\<close>

text \<open>\<^verbatim>\<open>f"%{s.lower()}%"\<close>\<close>

definition like_pattern :: "string \<Rightarrow> string" where
  "like_pattern s = ''%'' @ lower s @ ''%''"

definition viewer_join :: "string \<Rightarrow> string" where
  "viewer_join p = '' LEFT JOIN chart_likes cl ON c.id = cl.chart_id AND cl.sonolus_id = '' @ p"

definition commenter_join :: "string \<Rightarrow> string" where
  "commenter_join p =
     ''\<newline>'' @
     ''            JOIN (\<newline>'' @
     ''                SELECT DISTINCT chart_id\<newline>'' @
     ''                FROM comments\<newline>'' @
     ''                WHERE commenter = '' @ p @ ''\<newline>'' @
     ''            ) cmt ON c.id = cmt.chart_id\<newline>'' @
     ''        ''"

text \<open>The fragment of the combined filter: one placeholder, used at four places.\<close>

definition meta_fragment :: "string \<Rightarrow> string" where
  "meta_fragment p =
     ''(LOWER(c.title) LIKE '' @ p @ '' ''
     @ ''OR LOWER(c.description) LIKE '' @ p @ '' ''
     @ ''OR LOWER(c.chart_author || '#' || a.sonolus_handle) LIKE '' @ p @ '' ''
     @ ''OR LOWER(c.artists) LIKE '' @ p @ '')''"

text \<open>
  Lines 129 to 209, one entry for each \<^verbatim>\<open>if\<close> statement. A test \<^verbatim>\<open>if x:\<close> is
  \<^const>\<open>truthy\<close> (or \<^const>\<open>truthy_int\<close>), a test \<^verbatim>\<open>if x is not None:\<close> takes the
  option as it is. The \<^verbatim>\<open>if owned_by: ... elif sonolus_handle_is: ...\<close> statement is one
  entry.
\<close>

definition owner_or_handle :: "chart_list_args \<Rightarrow> build_state \<Rightarrow> build_state" where
  "owner_or_handle a =
     (case truthy (owned_by a) of
        Some ob \<Rightarrow> add_filter (Some (PStr ob)) (\<lambda>p. ''c.author = '' @ p)
      | None \<Rightarrow>
          add_filter (map_option PInt (truthy_int (sonolus_handle_is a)))
            (\<lambda>p. ''a.sonolus_handle = '' @ p))"

definition filter_steps :: "chart_list_args \<Rightarrow> (build_state \<Rightarrow> build_state) list" where
  "filter_steps a =
     [add_join (map_option PStr (truthy (sonolus_id a))) viewer_join,
      add_filter (map_option PStr (truthy (status a))) (\<lambda>p. ''c.status = '' @ p @ ''::chart_status''),
      add_filter (map_option PBool (staff_pick a)) (\<lambda>p. ''c.staff_pick = '' @ p @ ''::BOOL''),
      add_filter (map_option (\<lambda>m. PInt (m - 1)) (min_rating a)) (\<lambda>p. ''c.rating > '' @ p),
      add_filter (map_option (\<lambda>m. PInt (m + 1)) (max_rating a)) (\<lambda>p. ''c.rating < '' @ p),
      add_filter (map_option PStrList (truthy (tags a))) (\<lambda>p. ''c.tags @> '' @ p @ ''::text[]''),
      add_filter (map_option PInt (min_likes a)) (\<lambda>p. ''c.like_count >= '' @ p),
      add_filter (map_option PInt (max_likes a)) (\<lambda>p. ''c.like_count <= '' @ p),
      add_filter (map_option PInt (min_comments a)) (\<lambda>p. ''c.comment_count >= '' @ p),
      add_filter (map_option PInt (max_comments a)) (\<lambda>p. ''c.comment_count <= '' @ p),
      add_filter (map_option PStr (truthy (liked_by a))) (\<lambda>p. ''clb.sonolus_id = '' @ p),
      add_join (map_option PStr (truthy (commented_by a))) commenter_join,
      owner_or_handle a,
      add_filter (map_option (\<lambda>s. PStr (like_pattern s)) (truthy (title_includes a)))
        (\<lambda>p. ''LOWER(c.title) LIKE '' @ p),
      add_filter (map_option (\<lambda>s. PStr (like_pattern s)) (truthy (description_includes a)))
        (\<lambda>p. ''LOWER(c.description) LIKE '' @ p),
      add_filter (map_option (\<lambda>s. PStr (like_pattern s)) (truthy (artists_includes a)))
        (\<lambda>p. ''LOWER(c.artists) LIKE '' @ p),
      add_filter (map_option (\<lambda>s. PStr (like_pattern s)) (truthy (author_includes a)))
        (\<lambda>p. ''LOWER(c.chart_author || '#' || a.sonolus_handle) LIKE '' @ p),
      add_filter (map_option (\<lambda>s. PStr (like_pattern s)) (truthy (meta_includes a))) meta_fragment]"

text \<open>The state when line 210 is reached: every step applied in turn.\<close>

definition compile_filters :: "chart_list_args \<Rightarrow> build_state" where
  "compile_filters a = fold (\<lambda>step st. step st) (filter_steps a) (initial_state a)"

text \<open>
  Lines 211 and 212:
  \<^verbatim>\<open>if conditions: inner_select += " WHERE " + " AND ".join(conditions)\<close>.
\<close>

definition where_clause :: "string list \<Rightarrow> string" where
  "where_clause cs = (case cs of [] \<Rightarrow> [] | _ # _ \<Rightarrow> '' WHERE '' @ join '' AND '' cs)"

definition final_inner_select :: "chart_list_args \<Rightarrow> string" where
  "final_inner_select a =
     inner_select (compile_filters a) @ where_clause (conditions (compile_filters a))"

subsection \<open>Ranking\<close>

definition W_LIKE :: nat where "W_LIKE = 3"
definition W_COMMENT :: nat where "W_COMMENT = 4"
definition W_STAFF :: nat where "W_STAFF = 30"

text \<open>
  \<^verbatim>\<open>GRAVITY = 0.35\<close>. The f-string writes it into the query as the text \<^verbatim>\<open>0.35\<close>,
  which is what the storage engine reads.
\<close>

definition GRAVITY :: real where "GRAVITY = 35 / 100"
definition GRAVITY_text :: string where "GRAVITY_text = ''0.35''"

definition score_expr :: string where
  "score_expr =
     ''(like_count * '' @ show_nat W_LIKE @ '' + comment_count * '' @ show_nat W_COMMENT
     @ '' + (CASE WHEN staff_pick THEN '' @ show_nat W_STAFF @ '' ELSE 0 END))''"

definition decaying_score_sql :: string where
  "decaying_score_sql =
     ''(\<newline>'' @
     ''        ('' @ score_expr @ '') \<newline>'' @
     ''        /\<newline>'' @
     ''        POWER((EXTRACT(EPOCH FROM (NOW() - COALESCE(published_at, created_at))) / 3600) + 2, ''
       @ GRAVITY_text @ '')\<newline>'' @
     ''    )''"

text \<open>The dictionary of line 227 and its \<^verbatim>\<open>.get(sort_by, "created_at")\<close>.\<close>

definition sort_column :: "string \<Rightarrow> string" where
  "sort_column sb =
     (case map_of
        [(''created_at'', ''created_at''),
         (''published_at'', ''published_at''),
         (''rating'', ''rating''),
         (''likes'', ''like_count''),
         (''comments'', ''comment_count''),
         (''decaying_likes'', decaying_score_sql),
         (''abc'', ''title''),
         (''random'', ''RANDOM()'')] sb of
        Some c \<Rightarrow> c
      | None \<Rightarrow> ''created_at'')"

definition sort_order_sql :: "string \<Rightarrow> string" where
  "sort_order_sql so = (if lower so = ''desc'' then ''DESC'' else ''ASC'')"

definition filter_published_at_null :: "string \<Rightarrow> string" where
  "filter_published_at_null sb =
     (if sort_column sb = ''published_at'' then ''AND published_at IS NOT NULL'' else [])"

subsection \<open>The two queries\<close>

definition cte_open :: string where
  "cte_open =
     ''\<newline>'' @
     ''        WITH chart_data AS (\<newline>'' @
     ''            ''"

text \<open>What follows the inner SELECT in \<^verbatim>\<open>query\<close> (lines 247 to 253).\<close>

definition page_tail :: "chart_list_args \<Rightarrow> nat \<Rightarrow> string" where
  "page_tail a n =
     ''\<newline>'' @
     ''        )\<newline>'' @
     ''        SELECT *\<newline>'' @
     ''        FROM chart_data\<newline>'' @
     ''        WHERE 1=1 '' @ filter_published_at_null (sort_by a) @ ''\<newline>'' @
     ''        ORDER BY '' @ sort_column (sort_by a) @ '' '' @ sort_order_sql (sort_order a) @ ''\<newline>'' @
     ''        LIMIT $'' @ show_nat (n + 1) @ '' OFFSET $'' @ show_nat (n + 2) @ ''\<newline>'' @
     ''    ''"

text \<open>What follows the inner SELECT in \<^verbatim>\<open>count_query\<close> (lines 258 to 260).\<close>

definition count_tail :: string where
  "count_tail =
     ''\<newline>'' @
     ''        )\<newline>'' @
     ''        SELECT COUNT(*) AS total_count FROM chart_data\<newline>'' @
     ''    ''"

definition get_chart_list :: "chart_list_args \<Rightarrow> select_query \<times> select_query" where
  "get_chart_list a =
     (let st = compile_filters a;
          inner = final_inner_select a;
          query = cte_open @ inner @ page_tail a (length (params st));
          count_query = cte_open @ inner @ count_tail;
          count_params = params st;
          data_params = params st @ [PInt (items_per_page a), PInt (page a * items_per_page a)]
      in (SelectQuery ''Count'' count_query count_params,
          SelectQuery
            (case truthy (sonolus_id a) of
               None \<Rightarrow> ''ChartDBResponse''
             | Some _ \<Rightarrow> ''ChartDBResponseLiked'')
            query data_params))"

section \<open>What the storage engine does with the two queries\<close>

text \<open>
  Both queries read the relation \<^verbatim>\<open>chart_data\<close>, which the shared inner SELECT
  defines. A row of it is kept here by its key and its \<^verbatim>\<open>published_at\<close> column, the
  only column the text after the inner SELECT tests.
\<close>

record chart_data_row =
  row_id :: string
  published_at :: "int option"

text \<open>
  The page query continues \<^verbatim>\<open>SELECT * FROM chart_data WHERE 1=1 {filter_published_at_null}\<close>:
  the rows it keeps, before ORDER BY, LIMIT and OFFSET.
\<close>

definition outer_where :: "string \<Rightarrow> chart_data_row \<Rightarrow> bool" where
  "outer_where f r = (if f = ''AND published_at IS NOT NULL'' then published_at r \<noteq> None else True)"

definition page_rows :: "chart_list_args \<Rightarrow> chart_data_row list \<Rightarrow> chart_data_row list" where
  "page_rows a chart_data = filter (outer_where (filter_published_at_null (sort_by a))) chart_data"

text \<open>
  The count query continues \<^verbatim>\<open>SELECT COUNT(*) AS total_count FROM chart_data\<close>, with no
  WHERE: it counts every row.
\<close>

definition total_count :: "chart_data_row list \<Rightarrow> nat" where
  "total_count chart_data = length chart_data"

text \<open>A chart that has never been published, and a listing of private charts by publish time.\<close>

definition unpublished_row :: chart_data_row where
  "unpublished_row = \<lparr>row_id = ''c1'', published_at = None\<rparr>"

definition by_publish_time :: chart_list_args where
  "by_publish_time = (default_args 0 10)\<lparr>status := Some ''PRIVATE'', sort_by := ''published_at''\<rparr>"

subsection \<open>The decaying score\<close>

text \<open>
  The value of \<^const>\<open>score_expr\<close> on a row:
  \<^verbatim>\<open>like_count * 3 + comment_count * 4 + (CASE WHEN staff_pick THEN 30 ELSE 0 END)\<close>.
\<close>

definition raw_score :: "int \<Rightarrow> int \<Rightarrow> bool \<Rightarrow> int" where
  "raw_score like_count comment_count staff =
     like_count * int W_LIKE + comment_count * int W_COMMENT + (if staff then int W_STAFF else 0)"

text \<open>
  \<^verbatim>\<open>EXTRACT(EPOCH FROM (NOW() - COALESCE(published_at, created_at))) / 3600\<close>, with the
  three times in seconds.
\<close>

definition age_hours :: "real \<Rightarrow> real option \<Rightarrow> real \<Rightarrow> real" where
  "age_hours now published created =
     (now - (case published of Some p \<Rightarrow> p | None \<Rightarrow> created)) / 3600"

text \<open>
  The value of \<^const>\<open>decaying_score_sql\<close>: the score divided by
  \<^verbatim>\<open>POWER(age + 2, 0.35)\<close>, in exact arithmetic.
\<close>

definition decaying_score :: "int \<Rightarrow> int \<Rightarrow> bool \<Rightarrow> real \<Rightarrow> real" where
  "decaying_score like_count comment_count staff age =
     real_of_int (raw_score like_count comment_count staff) / (age + 2) powr GRAVITY"

section \<open>Mutations of \<^verbatim>\<open>database/charts.py\<close> and \<^verbatim>\<open>database/accounts.py\<close>\<close>

subsection \<open>\<^verbatim>\<open>delete_chart\<close> and \<^verbatim>\<open>delete_account\<close>\<close>

definition delete_chart_unconfirmed :: string where
  "delete_chart_unconfirmed =
     ''Deletion not confirmed. Ensure you are deleting the old files from S3 to ensure there is no hanging files.''"

definition delete_chart_sql :: string where
  "delete_chart_sql =
     ''\<newline>'' @
     ''                DELETE FROM charts\<newline>'' @
     ''                USING accounts a\<newline>'' @
     ''                WHERE charts.id = $1\<newline>'' @
     ''                AND charts.author = a.sonolus_id\<newline>'' @
     ''                RETURNING\<newline>'' @
     ''                    charts.*,\<newline>'' @
     ''                    charts.chart_author AS chart_design,\<newline>'' @
     ''                    a.sonolus_handle AS author_handle;\<newline>'' @
     ''            ''"

definition delete_own_chart_sql :: string where
  "delete_own_chart_sql =
     ''\<newline>'' @
     ''                DELETE FROM charts\<newline>'' @
     ''                USING accounts a\<newline>'' @
     ''                WHERE charts.id = $1\<newline>'' @
     ''                AND charts.author = $2\<newline>'' @
     ''                AND charts.author = a.sonolus_id\<newline>'' @
     ''                RETURNING\<newline>'' @
     ''                    charts.*,\<newline>'' @
     ''                    charts.chart_author AS chart_design,\<newline>'' @
     ''                    a.sonolus_handle AS author_handle;\<newline>'' @
     ''            ''"

definition delete_chart :: "string \<Rightarrow> string option \<Rightarrow> bool \<Rightarrow> error + select_query" where
  "delete_chart chart_id sid confirm_change =
     (if \<not> confirm_change then Inl (ValueError delete_chart_unconfirmed)
      else
        (case truthy sid of
           None \<Rightarrow> Inr (SelectQuery ''ChartDBResponse'' delete_chart_sql [PStr chart_id])
         | Some s \<Rightarrow>
             Inr (SelectQuery ''ChartDBResponse'' delete_own_chart_sql [PStr chart_id, PStr s])))"

definition delete_account_unconfirmed :: string where
  "delete_account_unconfirmed =
     ''Deletion not confirmed. Ensure you are deleting the old chart files from S3 to ensure there is no hanging files.''"

definition delete_account_sql :: string where
  "delete_account_sql =
     ''\<newline>'' @
     ''            DELETE FROM accounts\<newline>'' @
     ''            WHERE sonolus_id = $1;\<newline>'' @
     ''        ''"

definition delete_account :: "string \<Rightarrow> bool \<Rightarrow> error + executable_query" where
  "delete_account sid confirm_change =
     (if \<not> confirm_change then Inl (ValueError delete_account_unconfirmed)
      else Inr (ExecutableQuery delete_account_sql [PStr sid]))"

subsection \<open>\<^verbatim>\<open>update_metadata\<close> and \<^verbatim>\<open>update_file_hash\<close>\<close>

text \<open>
  The local function \<^verbatim>\<open>add_field\<close> of both, on the pair of the lists
  \<^verbatim>\<open>set_fields\<close> and \<^verbatim>\<open>args\<close>:
  \<^verbatim>\<open>args.append(value); set_fields.append(f"{field_name} = ${len(args)}")\<close>.
\<close>

definition add_field :: "string \<Rightarrow> param \<Rightarrow> string list \<times> param list \<Rightarrow> string list \<times> param list" where
  "add_field field_name v s =
     (let xs = snd s @ [v] in (fst s @ [field_name @ '' = $'' @ show_nat (length xs)], xs))"

text \<open>\<^verbatim>\<open>set_fields.append(text)\<close>, which binds no value.\<close>

definition add_null :: "string \<Rightarrow> string list \<times> param list \<Rightarrow> string list \<times> param list" where
  "add_null text s = (fst s @ [text], snd s)"

text \<open>The query text of both functions.\<close>

definition update_charts_sql :: "string \<Rightarrow> nat \<Rightarrow> string" where
  "update_charts_sql set_clause n =
     ''\<newline>'' @
     ''        UPDATE charts\<newline>'' @
     ''        SET '' @ set_clause @ ''\<newline>'' @
     ''        WHERE id = $'' @ show_nat n @ '';\<newline>'' @
     ''    ''"

text \<open>The truth value of an optional string or list, and of an optional number.\<close>

definition is_truthy :: "'a list option \<Rightarrow> bool" where
  "is_truthy v = (truthy v \<noteq> None)"

definition truthy_fvalue :: "fvalue \<Rightarrow> bool" where
  "truthy_fvalue x = (case x of Finite q \<Rightarrow> q \<noteq> 0 | Infinity _ \<Rightarrow> True | NaN \<Rightarrow> True)"

definition truthy_number :: "number option \<Rightarrow> bool" where
  "truthy_number v =
     (case v of
        None \<Rightarrow> False
      | Some (PyInt i) \<Rightarrow> i \<noteq> 0
      | Some (PyFloat x) \<Rightarrow> truthy_fvalue x
      | Some (PyDecimal x) \<Rightarrow> truthy_fvalue x)"

text \<open>
  Lines 460 and 461, \<^verbatim>\<open>if type(rating) == int: rating = float(rating)\<close>, which can
  raise.
\<close>

definition convert_rating :: "number option \<Rightarrow> error + number option" where
  "convert_rating rating =
     (case rating of
        Some (PyInt i) \<Rightarrow>
          (case py_float i of Inl e \<Rightarrow> Inl e | Inr x \<Rightarrow> Inr (Some (PyFloat x)))
      | _ \<Rightarrow> Inr rating)"

definition update_metadata ::
  "string \<Rightarrow> string option \<Rightarrow> number option \<Rightarrow> string option \<Rightarrow> string option \<Rightarrow>
   string option \<Rightarrow> string list option \<Rightarrow> bool \<Rightarrow> error + executable_query" where
  "update_metadata chart_id chart_author rating description title artists tag_list
     update_none_description =
     (if \<not> (truthy_number rating \<or> is_truthy description \<or> is_truthy title \<or> is_truthy artists
             \<or> is_truthy tag_list \<or> is_truthy chart_author \<or> update_none_description)
      then Inl (ValueError ''At least one field must be updated.'')
      else
        (case convert_rating rating of
           Inl e \<Rightarrow> Inl e
         | Inr rating_f \<Rightarrow>
        (let s1 = (case rating_f of Some v \<Rightarrow> add_field ''rating'' (PNum v) ([], []) | None \<Rightarrow> ([], []));
             s2 = (case chart_author of Some v \<Rightarrow> add_field ''chart_author'' (PStr v) s1 | None \<Rightarrow> s1);
             s3 = (case description of
                     Some v \<Rightarrow> add_field ''description'' (PStr v) s2
                   | None \<Rightarrow> if update_none_description then add_null ''description = NULL'' s2 else s2);
             s4 = (case title of Some v \<Rightarrow> add_field ''title'' (PStr v) s3 | None \<Rightarrow> s3);
             s5 = (case artists of Some v \<Rightarrow> add_field ''artists'' (PStr v) s4 | None \<Rightarrow> s4);
             s6 = (case tag_list of Some v \<Rightarrow> add_field ''tags'' (PStrList v) s5 | None \<Rightarrow> s5);
             set_fields = fst s6 @ [''updated_at = CURRENT_TIMESTAMP''];
             set_clause = join '', '' set_fields;
             xs = snd s6 @ [PStr chart_id]
         in Inr (ExecutableQuery (update_charts_sql set_clause (length xs)) xs))))"

definition hash_change_unconfirmed :: string where
  "hash_change_unconfirmed =
     ''File hash change is not confirmed. Ensure you are deleting the old files from S3 to avoid dangling files.''"

definition update_file_hash ::
  "string \<Rightarrow> string option \<Rightarrow> string option \<Rightarrow> string option \<Rightarrow> string option \<Rightarrow>
   string option \<Rightarrow> string option \<Rightarrow> string option \<Rightarrow> bool \<Rightarrow> bool \<Rightarrow> bool \<Rightarrow>
   error + executable_query" where
  "update_file_hash chart_id jacket_hash v1_hash v3_hash music_hash chart_hash preview_hash
     background_hash confirm_change update_none_preview update_none_background =
     (if \<not> confirm_change then Inl (ValueError hash_change_unconfirmed)
      else if is_truthy jacket_hash \<and> \<not> (is_truthy v1_hash \<and> is_truthy v3_hash)
      then Inl (ValueError ''Must regenerate v1/v3 on jacket change'')
      else
        (let s1 = (case jacket_hash of Some v \<Rightarrow> add_field ''jacket_file_hash'' (PStr v) ([], []) | None \<Rightarrow> ([], []));
             s2 = (case v1_hash of Some v \<Rightarrow> add_field ''background_v1_file_hash'' (PStr v) s1 | None \<Rightarrow> s1);
             s3 = (case v3_hash of Some v \<Rightarrow> add_field ''background_v3_file_hash'' (PStr v) s2 | None \<Rightarrow> s2);
             s4 = (case music_hash of Some v \<Rightarrow> add_field ''music_file_hash'' (PStr v) s3 | None \<Rightarrow> s3);
             s5 = (case chart_hash of Some v \<Rightarrow> add_field ''chart_file_hash'' (PStr v) s4 | None \<Rightarrow> s4);
             s6 = (case preview_hash of
                     Some v \<Rightarrow> add_field ''preview_file_hash'' (PStr v) s5
                   | None \<Rightarrow> if update_none_preview then add_null ''preview_file_hash = NULL'' s5 else s5);
             s7 = (case background_hash of
                     Some v \<Rightarrow> add_field ''background_file_hash'' (PStr v) s6
                   | None \<Rightarrow>
                       if update_none_background then add_null ''background_file_hash = NULL'' s6 else s6);
             set_fields = fst s7 @ [''updated_at = CURRENT_TIMESTAMP'']
         in (case set_fields of
               [] \<Rightarrow> Inl (ValueError ''At least one file hash must be updated.'')
             | _ # _ \<Rightarrow>
                 (let set_clause = join '', '' set_fields;
                      xs = snd s7 @ [PStr chart_id]
                  in Inr (ExecutableQuery (update_charts_sql set_clause (length xs)) xs)))))"

section \<open>Session slots: \<^verbatim>\<open>create_account_if_not_exists_and_new_session\<close>\<close>

definition upsert_sql :: string where
  "upsert_sql =
     ''\<newline>'' @
     ''        INSERT INTO accounts (sonolus_id, sonolus_handle, sonolus_username, sonolus_sessions)\<newline>'' @
     ''        VALUES ($1, $2, $3, jsonb_build_object('game','{}'::jsonb,'external','{}'::jsonb))\<newline>'' @
     ''        ON CONFLICT (sonolus_id) DO UPDATE\<newline>'' @
     ''        SET sonolus_username = EXCLUDED.sonolus_username;\<newline>'' @
     ''        ''"

definition session_sql :: string where
  "session_sql =
     ''\<newline>'' @
     ''        WITH slot_to_use AS (\<newline>'' @
     ''            SELECT\<newline>'' @
     ''                CASE\<newline>'' @
     ''                    WHEN jsonb_extract_path(sonolus_sessions, $2, '1') IS NULL OR\<newline>'' @
     ''                        (jsonb_extract_path(sonolus_sessions, $2, '1')->>'expires')::bigint < extract(epoch from now())*1000\<newline>'' @
     ''                    THEN '1'\<newline>'' @
     ''                    WHEN jsonb_extract_path(sonolus_sessions, $2, '2') IS NULL OR\<newline>'' @
     ''                        (jsonb_extract_path(sonolus_sessions, $2, '2')->>'expires')::bigint < extract(epoch from now())*1000\<newline>'' @
     ''                    THEN '2'\<newline>'' @
     ''                    WHEN jsonb_extract_path(sonolus_sessions, $2, '3') IS NULL OR\<newline>'' @
     ''                        (jsonb_extract_path(sonolus_sessions, $2, '3')->>'expires')::bigint < extract(epoch from now())*1000\<newline>'' @
     ''                    THEN '3'\<newline>'' @
     ''                    ELSE (\<newline>'' @
     ''                        SELECT key\<newline>'' @
     ''                        FROM jsonb_each(jsonb_extract_path(sonolus_sessions, $2)) AS t(key,val)\<newline>'' @
     ''                        ORDER BY (val->>'expires')::bigint ASC\<newline>'' @
     ''                        LIMIT 1\<newline>'' @
     ''                    )\<newline>'' @
     ''                END AS slot\<newline>'' @
     ''            FROM accounts\<newline>'' @
     ''            WHERE sonolus_id=$1\<newline>'' @
     ''        )\<newline>'' @
     ''        UPDATE accounts a\<newline>'' @
     ''        SET sonolus_sessions = jsonb_set(\<newline>'' @
     ''            a.sonolus_sessions,\<newline>'' @
     ''            array[$2, s.slot],\<newline>'' @
     ''            jsonb_build_object(\<newline>'' @
     ''                'session_key', $3::text,\<newline>'' @
     ''                'expires', $4::bigint\<newline>'' @
     ''            ),\<newline>'' @
     ''            true\<newline>'' @
     ''        )\<newline>'' @
     ''        FROM slot_to_use s\<newline>'' @
     ''        WHERE a.sonolus_id=$1\<newline>'' @
     ''        RETURNING \<newline>'' @
     ''            (jsonb_extract_path(a.sonolus_sessions, $2, s.slot)->>'session_key')::text AS session_key,\<newline>'' @
     ''            (jsonb_extract_path(a.sonolus_sessions, $2, s.slot)->>'expires')::bigint AS expires;\<newline>'' @
     ''        ''"

text \<open>\<^verbatim>\<open>generate_create_account_query\<close>, which writes no \<^verbatim>\<open>sonolus_sessions\<close>.\<close>

definition create_account_sql :: string where
  "create_account_sql =
     ''\<newline>'' @
     ''            INSERT INTO accounts (sonolus_id, sonolus_handle, sonolus_username)\<newline>'' @
     ''            VALUES ($1, $2, $3);\<newline>'' @
     ''        ''"

definition generate_create_account_query :: "string \<Rightarrow> int \<Rightarrow> string \<Rightarrow> executable_query" where
  "generate_create_account_query sid sonolus_handle sonolus_username =
     ExecutableQuery create_account_sql [PStr sid, PInt sonolus_handle, PStr sonolus_username]"

text \<open>
  The Python function checks the session type and binds the four parameters of the
  session query. \<open>expiry_time\<close> stands for the value of lines 127 to 130, the clock
  reading plus \<^verbatim>\<open>expiry_ms\<close>, in milliseconds.
\<close>

definition create_account_if_not_exists_and_new_session ::
  "string \<Rightarrow> string \<Rightarrow> int \<Rightarrow> string \<Rightarrow> string \<Rightarrow> int \<Rightarrow> error + executable_query \<times> select_query" where
  "create_account_if_not_exists_and_new_session skey sid sonolus_handle sonolus_username
     session_type expiry_time =
     (if session_type \<notin> set [''game'', ''external'']
      then Inl (ValueError ''invalid session type. must be 'game' or 'external'.'')
      else
        Inr (ExecutableQuery upsert_sql [PStr sid, PInt sonolus_handle, PStr sonolus_username],
             SelectQuery ''SessionData'' session_sql
               [PStr sid, PStr session_type, PStr skey, PInt expiry_time]))"

subsection \<open>What the session query does\<close>

text \<open>
  The slots of one account and one session type: the JSON object
  \<^verbatim>\<open>sonolus_sessions -> $2\<close>, whose keys are \<^verbatim>\<open>'1'\<close>, \<^verbatim>\<open>'2'\<close> and \<^verbatim>\<open>'3'\<close> and whose
  values have the fields \<^verbatim>\<open>session_key\<close> and \<^verbatim>\<open>expires\<close>. A key that is not in the
  object is \<open>None\<close>.
\<close>

datatype slot_key = Slot1 | Slot2 | Slot3

record session_slot =
  session_key :: string
  expires :: int

type_synonym sessions = "slot_key \<Rightarrow> session_slot option"

text \<open>
  What the account's row holds for the session type. It is \<open>None\<close> when there is no such
  object: the column \<^verbatim>\<open>sonolus_sessions\<close> is NULL, or it has no key for the session type.
  The INSERT of the upsert writes both objects, empty; \<^verbatim>\<open>generate_create_account_query\<close>
  writes no \<^verbatim>\<open>sonolus_sessions\<close>, and the upsert, on a conflict, sets the user name only.
\<close>

type_synonym stored_sessions = "sessions option"

definition slot_index :: "slot_key \<Rightarrow> nat" where
  "slot_index k = (case k of Slot1 \<Rightarrow> 1 | Slot2 \<Rightarrow> 2 | Slot3 \<Rightarrow> 3)"

text \<open>\<^verbatim>\<open>jsonb_extract_path(sonolus_sessions, $2, k)\<close>, NULL when a step of the path is missing.\<close>

definition jsonb_extract_path :: "stored_sessions \<Rightarrow> slot_key \<Rightarrow> session_slot option" where
  "jsonb_extract_path st k = (case st of None \<Rightarrow> None | Some ss \<Rightarrow> ss k)"

text \<open>
  The condition of each WHEN:
  \<^verbatim>\<open>jsonb_extract_path(sonolus_sessions, $2, k) IS NULL OR (... ->> 'expires')::bigint < extract(epoch from now())*1000\<close>.
  The time of the storage engine is a real number of milliseconds.
\<close>

definition slot_free :: "stored_sessions \<Rightarrow> real \<Rightarrow> slot_key \<Rightarrow> bool" where
  "slot_free st now k =
     (case jsonb_extract_path st k of None \<Rightarrow> True | Some s \<Rightarrow> real_of_int (expires s) < now)"

text \<open>
  \<^verbatim>\<open>jsonb_each(jsonb_extract_path(sonolus_sessions, $2)) AS t(key,val)\<close>: the rows of the
  object, which the storage engine gives in the order of the keys.
\<close>

definition jsonb_each :: "stored_sessions \<Rightarrow> (slot_key \<times> session_slot) list" where
  "jsonb_each st =
     (case st of
        None \<Rightarrow> []
      | Some ss \<Rightarrow>
          concat (map (\<lambda>k. case ss k of None \<Rightarrow> [] | Some s \<Rightarrow> [(k, s)]) [Slot1, Slot2, Slot3]))"

text \<open>
  The ELSE branch, \<^verbatim>\<open>SELECT key FROM ... ORDER BY (val->>'expires')::bigint ASC LIMIT 1\<close>:
  the key of the first row after sorting by the expiry, NULL when there is no row. SQL
  leaves open which of several rows with the same least expiry comes first; the storage
  engine keeps such rows in the order it read them, which is what the stable
  \<^const>\<open>sort_key\<close> does.
\<close>

definition oldest_key :: "stored_sessions \<Rightarrow> slot_key option" where
  "oldest_key st =
     (case sort_key (\<lambda>row. expires (snd row)) (jsonb_each st) of
        [] \<Rightarrow> None
      | row # _ \<Rightarrow> Some (fst row))"

text \<open>The CASE expression of \<^verbatim>\<open>slot_to_use\<close>.\<close>

definition slot_to_use :: "stored_sessions \<Rightarrow> real \<Rightarrow> slot_key option" where
  "slot_to_use st now =
     (if slot_free st now Slot1 then Some Slot1
      else if slot_free st now Slot2 then Some Slot2
      else if slot_free st now Slot3 then Some Slot3
      else oldest_key st)"

text \<open>
  \<^verbatim>\<open>jsonb_set(a.sonolus_sessions, array[$2, s.slot], jsonb_build_object('session_key', $3, 'expires', $4), true)\<close>.
  The last argument lets the function add the last step of the path, the slot, when it is
  missing. Every earlier step must exist: without the object of the session type the
  value is returned as it is (and NULL stays NULL).
\<close>

definition jsonb_set :: "stored_sessions \<Rightarrow> slot_key \<Rightarrow> session_slot \<Rightarrow> stored_sessions" where
  "jsonb_set st k v = (case st of None \<Rightarrow> None | Some ss \<Rightarrow> Some (ss(k := Some v)))"

text \<open>
  The UPDATE with its RETURNING clause: the new value of the row, and the two returned
  columns, which are read from the updated row. The result is \<open>None\<close> if the CASE
  expression gives no slot.
\<close>

definition session_query ::
  "stored_sessions \<Rightarrow> real \<Rightarrow> string \<Rightarrow> int \<Rightarrow> (stored_sessions \<times> string option \<times> int option) option" where
  "session_query st now skey expiry =
     (case slot_to_use st now of
        None \<Rightarrow> None
      | Some k \<Rightarrow>
          (let st' = jsonb_set st k \<lparr>session_key = skey, expires = expiry\<rparr>
           in Some (st',
                    map_option session_key (jsonb_extract_path st' k),
                    map_option expires (jsonb_extract_path st' k))))"

text \<open>Three sessions that have not expired at time 50; the first two expire together.\<close>

definition tied_sessions :: sessions where
  "tied_sessions k =
     (case k of
        Slot1 \<Rightarrow> Some \<lparr>session_key = ''a'', expires = 100\<rparr>
      | Slot2 \<Rightarrow> Some \<lparr>session_key = ''b'', expires = 100\<rparr>
      | Slot3 \<Rightarrow> Some \<lparr>session_key = ''c'', expires = 200\<rparr>)"

text \<open>The example of the specification: expiries 100, 300 and 200.\<close>

definition full_sessions :: sessions where
  "full_sessions k =
     (case k of
        Slot1 \<Rightarrow> Some \<lparr>session_key = ''a'', expires = 100\<rparr>
      | Slot2 \<Rightarrow> Some \<lparr>session_key = ''b'', expires = 300\<rparr>
      | Slot3 \<Rightarrow> Some \<lparr>session_key = ''c'', expires = 200\<rparr>)"

section \<open>Example calls, and a notion for the proofs\<close>

text \<open>
  A call with both rating bounds, an owner together with a handle, and the combined text
  filter.
\<close>

definition example_args :: chart_list_args where
  "example_args =
     (default_args 2 10)\<lparr>min_rating := Some 5, max_rating := Some 9, owned_by := Some ''u1'',
        sonolus_handle_is := Some 7, meta_includes := Some ''Ab''\<rparr>"

text \<open>A call whose status, handle, tags and title filter are given, with values that are false.\<close>

definition falsy_args :: chart_list_args where
  "falsy_args =
     (default_args 0 10)\<lparr>status := Some [], sonolus_handle_is := Some 0, tags := Some [],
        title_includes := Some [], min_rating := Some 5\<rparr>"

text \<open>
  The value of the fragments \<^verbatim>\<open>c.rating > $k\<close> and \<^verbatim>\<open>c.rating < $k\<close> on a row with an
  integer rating, for the parameter bound to \<^verbatim>\<open>$k\<close>.
\<close>

definition rating_above :: "param \<Rightarrow> int \<Rightarrow> bool" where
  "rating_above p r = (case p of PInt b \<Rightarrow> b < r | _ \<Rightarrow> False)"

definition rating_below :: "param \<Rightarrow> int \<Rightarrow> bool" where
  "rating_below p r = (case p of PInt b \<Rightarrow> r < b | _ \<Rightarrow> False)"

text \<open>A step grows the state when it only appends to \<^verbatim>\<open>params\<close> and \<^verbatim>\<open>conditions\<close>.\<close>

definition grows :: "(build_state \<Rightarrow> build_state) \<Rightarrow> bool" where
  "grows f = (\<forall>st. prefix (params st) (params (f st)) \<and> prefix (conditions st) (conditions (f st)))"

section \<open>Properties of the chart list query\<close>

text \<open>
  The two queries are built around one and the same inner SELECT, which carries every
  compiled condition: the two texts open alike, continue with the same inner SELECT and
  differ only in what follows it. The parameters of the count query are the compiled
  parameters, and the parameters of the page query are those followed by exactly two
  more, \<^verbatim>\<open>items_per_page\<close> and \<^verbatim>\<open>page * items_per_page\<close>.
\<close>

lemma one_shared_inner_select:
  "sql (fst (get_chart_list a)) = cte_open @ final_inner_select a @ count_tail
   \<and> sql (snd (get_chart_list a))
      = cte_open @ final_inner_select a @ page_tail a (length (args (fst (get_chart_list a))))
   \<and> final_inner_select a
      = inner_select (compile_filters a) @ where_clause (conditions (compile_filters a))
   \<and> args (fst (get_chart_list a)) = params (compile_filters a)
   \<and> args (snd (get_chart_list a))
      = args (fst (get_chart_list a)) @ [PInt (items_per_page a), PInt (page a * items_per_page a)]"
  by (simp add: get_chart_list_def Let_def SelectQuery_def final_inner_select_def)

text \<open>The call with every default, for page 2 of size 10.\<close>

lemma default_call:
  "args (fst (get_chart_list (default_args 2 10))) = [PStr ''PUBLIC'']"
  "args (snd (get_chart_list (default_args 2 10))) = [PStr ''PUBLIC'', PInt 10, PInt 20]"
  "conditions (compile_filters (default_args 2 10)) = [''c.status = $1::chart_status'']"
  "model (snd (get_chart_list (default_args 2 10))) = ''ChartDBResponse''"
  by (simp_all add: get_chart_list_def SelectQuery_def default_args_def compile_filters_def
      filter_steps_def initial_state_def owner_or_handle_def add_filter_def add_join_def
      placeholder_def Let_def show_nat.simps digit_char_def truthy_int_def)

lemmas listing_by_publish_time =
  get_chart_list_def SelectQuery_def by_publish_time_def default_args_def compile_filters_def
  filter_steps_def initial_state_def owner_or_handle_def add_filter_def add_join_def
  placeholder_def Let_def show_nat.simps digit_char_def truthy_int_def final_inner_select_def
  where_clause_def cte_open_def count_tail_def page_tail_def select_columns_def from_clause_def
  filter_published_at_null_def sort_column_def sort_order_sql_def lower_def lower_char_def

text \<open>
  Claim C1. The predicate fragments of the count query and of the page query are to be
  the same text for every combination of arguments. They are not when the ranking is the
  publish time: the text of the page query then contains the predicate
  \<^verbatim>\<open>AND published_at IS NOT NULL\<close>, written after the shared inner SELECT, and the text
  of the count query does not contain it anywhere.
\<close>

theorem publish_predicate_only_in_page_query:
  "sublist ''AND published_at IS NOT NULL'' (sql (snd (get_chart_list by_publish_time)))
   \<and> \<not> sublist ''AND published_at IS NOT NULL'' (sql (fst (get_chart_list by_publish_time)))
   \<and> args (snd (get_chart_list by_publish_time))
       = args (fst (get_chart_list by_publish_time)) @ [PInt 10, PInt 0]"
proof (intro conjI)
  show "sublist ''AND published_at IS NOT NULL'' (sql (snd (get_chart_list by_publish_time)))"
    by (simp add: listing_by_publish_time sublist_Cons_right)
  show "\<not> sublist ''AND published_at IS NOT NULL'' (sql (fst (get_chart_list by_publish_time)))"
    by (simp add: listing_by_publish_time sublist_Cons_right)
  show "args (snd (get_chart_list by_publish_time))
       = args (fst (get_chart_list by_publish_time)) @ [PInt 10, PInt 0]"
    using one_shared_inner_select [of by_publish_time]
    by (simp add: by_publish_time_def default_args_def)
qed

section \<open>Properties of the mutations\<close>

lemma hash_change_unconfirmed_neq:
  "hash_change_unconfirmed \<noteq> ''Must regenerate v1/v3 on jacket change''"
  "hash_change_unconfirmed \<noteq> ''At least one file hash must be updated.''"
  by (simp_all add: hash_change_unconfirmed_def)

lemma case_snoc: "(case xs @ [y] of [] \<Rightarrow> a | _ # _ \<Rightarrow> b) = b"
  by (cases xs) simp_all

text \<open>
  Once confirmed, \<^verbatim>\<open>update_file_hash\<close> either rejects a jacket that comes without its two
  derived images or returns a query.
\<close>

lemma update_file_hash_confirmed:
  "update_file_hash chart_id j v1 v3 m c p b True np nb
     = Inl (ValueError ''Must regenerate v1/v3 on jacket change'')
   \<or> \<not> isl (update_file_hash chart_id j v1 v3 m c p b True np nb)"
  by (simp add: update_file_hash_def Let_def case_snoc)

text \<open>
  Claim C4. With the confirmation flag false, \<^verbatim>\<open>delete_chart\<close>, \<^verbatim>\<open>delete_account\<close> and
  \<^verbatim>\<open>update_file_hash\<close> raise their confirmation error, whatever the other arguments are,
  and so return no query. With the flag true, the two deletions return a query, and
  \<^verbatim>\<open>update_file_hash\<close> does not raise the confirmation error.
\<close>

theorem confirmation_flag:
  "delete_chart chart_id sid False = Inl (ValueError delete_chart_unconfirmed)
   \<and> delete_account acc False = Inl (ValueError delete_account_unconfirmed)
   \<and> update_file_hash chart_id j v1 v3 m c p b False np nb = Inl (ValueError hash_change_unconfirmed)
   \<and> \<not> isl (delete_chart chart_id sid True)
   \<and> \<not> isl (delete_account acc True)
   \<and> update_file_hash chart_id j v1 v3 m c p b True np nb \<noteq> Inl (ValueError hash_change_unconfirmed)"
proof -
  have "update_file_hash chart_id j v1 v3 m c p b True np nb \<noteq> Inl (ValueError hash_change_unconfirmed)"
    using update_file_hash_confirmed [of chart_id j v1 v3 m c p b np nb]
    by (auto simp: hash_change_unconfirmed_def)
  moreover have "\<not> isl (delete_chart chart_id sid True)"
    by (simp add: delete_chart_def split: option.splits)
  ultimately show ?thesis
    by (simp add: delete_chart_def delete_account_def update_file_hash_def)
qed

text \<open>
  \<^verbatim>\<open>update_metadata\<close> with no field given raises its validation error, for every chart
  identifier.
\<close>

lemma update_metadata_no_field:
  "update_metadata chart_id None None None None None None False
     = Inl (ValueError ''At least one field must be updated.'')"
  by (simp add: update_metadata_def truthy_number_def is_truthy_def)

text \<open>
  The conversion of an integer rating: exact below \<open>2 ^ 53\<close>, rounded above.
\<close>

lemma update_metadata_rating:
  "update_metadata ''c1'' None (Some (PyInt 5)) None None None None False
     = Inr (ExecutableQuery
         (update_charts_sql ''rating = $1, updated_at = CURRENT_TIMESTAMP'' 2)
         [PNum (PyFloat (Finite 5)), PStr ''c1''])"
proof -
  have "convert_rating (Some (PyInt 5)) = Inr (Some (PyFloat (Finite 5)))"
    by (simp add: convert_rating_def py_float_def round_53_def bit_length.simps Let_def)
  then show ?thesis
    by (simp add: update_metadata_def truthy_number_def is_truthy_def Let_def add_field_def
        show_nat.simps digit_char_def numeral_2_eq_2)
qed

lemma convert_rating_rounds:
  "convert_rating (Some (PyInt (2 ^ 53 + 1))) = Inr (Some (PyFloat (Finite (2 ^ 53))))"
  by (simp add: convert_rating_def py_float_def round_53_def bit_length.simps Let_def)

text \<open>An integer rating too large for a float: the conversion raises, after the validation.\<close>

lemma py_float_overflow:
  "py_float (2 ^ 1024) = Inl (OverflowError ''int too large to convert to float'')"
  by (simp add: py_float_def round_53_def bit_length.simps Let_def)

lemma update_metadata_overflow:
  "update_metadata ''c1'' None (Some (PyInt (2 ^ 1024))) None None None None False
     = Inl (OverflowError ''int too large to convert to float'')"
proof -
  have t: "truthy_number (Some (PyInt (2 ^ 1024))) = True"
    by (simp add: truthy_number_def)
  have c: "convert_rating (Some (PyInt (2 ^ 1024)))
      = Inl (OverflowError ''int too large to convert to float'')"
    by (simp only: convert_rating_def option.case number.case py_float_overflow sum.case)
  show ?thesis
    by (simp only: update_metadata_def t c simp_thms if_False sum.case)
qed

text \<open>
  \<^verbatim>\<open>update_file_hash\<close> never raises the error of its test \<^verbatim>\<open>if not set_fields\<close>.
\<close>

lemma update_file_hash_test_dead:
  "update_file_hash chart_id j v1 v3 m c p b confirm np nb
     \<noteq> Inl (ValueError ''At least one file hash must be updated.'')"
proof (cases confirm)
  case True
  then show ?thesis
    using update_file_hash_confirmed [of chart_id j v1 v3 m c p b np nb] by auto
next
  case False
  then show ?thesis
    by (simp add: update_file_hash_def hash_change_unconfirmed_neq)
qed

text \<open>
  Claim C3. A mutation with no field given is to raise a validation error.
  \<^verbatim>\<open>update_file_hash\<close>, once confirmed, does not: \<^verbatim>\<open>updated_at = CURRENT_TIMESTAMP\<close> is
  appended to \<^verbatim>\<open>set_fields\<close> before the test \<^verbatim>\<open>if not set_fields\<close>, so the test never
  fires, and the call with no hash at all returns the query that sets \<^verbatim>\<open>updated_at\<close>
  alone.
\<close>

theorem update_file_hash_no_field:
  "update_file_hash ''c1'' None None None None None None None True False False
     = Inr (ExecutableQuery (update_charts_sql ''updated_at = CURRENT_TIMESTAMP'' 1) [PStr ''c1''])"
  by (simp add: update_file_hash_def is_truthy_def Let_def)

section \<open>Properties of the count and of the ranking\<close>

lemma sort_column_published: "(sort_column sb = ''published_at'') = (sb = ''published_at'')"
  by (simp add: sort_column_def decaying_score_sql_def)

text \<open>Under every ranking but the publish time, the page query keeps every row that is counted.\<close>

lemma page_rows_other_sort: "sort_by a \<noteq> ''published_at'' \<Longrightarrow> page_rows a chart_data = chart_data"
  by (simp add: page_rows_def filter_published_at_null_def sort_column_published outer_where_def)

text \<open>The text that follows the inner SELECT in the page query of a listing by publish time.\<close>

lemma page_tail_by_publish_time:
  "page_tail by_publish_time 1 =
     ''\<newline>'' @
     ''        )\<newline>'' @
     ''        SELECT *\<newline>'' @
     ''        FROM chart_data\<newline>'' @
     ''        WHERE 1=1 AND published_at IS NOT NULL\<newline>'' @
     ''        ORDER BY published_at DESC\<newline>'' @
     ''        LIMIT $2 OFFSET $3\<newline>'' @
     ''    ''"
  by (simp add: page_tail_def by_publish_time_def default_args_def filter_published_at_null_def
      sort_column_def sort_order_sql_def lower_def lower_char_def show_nat.simps digit_char_def)

text \<open>
  Claim C2. The count query is to count the rows the page query selects before LIMIT and
  OFFSET, also under the ranking by publish time. It does not: the predicate
  \<^verbatim>\<open>AND published_at IS NOT NULL\<close> is written into the page query only. For a listing by
  publish time over a relation that holds one chart never published, the count is 1 and
  the page query selects no row.
\<close>

theorem count_misses_publish_filter:
  "filter_published_at_null (sort_by by_publish_time) = ''AND published_at IS NOT NULL''
   \<and> total_count [unpublished_row] = 1
   \<and> page_rows by_publish_time [unpublished_row] = []"
  by (simp add: total_count_def page_rows_def by_publish_time_def default_args_def
      filter_published_at_null_def sort_column_def outer_where_def unpublished_row_def)

lemma score_expr_text:
  "score_expr = ''(like_count * 3 + comment_count * 4 + (CASE WHEN staff_pick THEN 30 ELSE 0 END))''"
  by (simp add: score_expr_def W_LIKE_def W_COMMENT_def W_STAFF_def show_nat.simps digit_char_def)

lemma decaying_score_less:
  assumes "0 < raw_score l c s" "- 2 < a1" "a1 < a2"
  shows "decaying_score l c s a2 < decaying_score l c s a1"
proof -
  have pos: "0 < (a1 + 2) powr GRAVITY" "0 < (a2 + 2) powr GRAVITY"
    using assms(2,3) by simp_all
  have "(a1 + 2) powr GRAVITY < (a2 + 2) powr GRAVITY"
    using assms(2,3) by (intro powr_less_mono2) (simp_all add: GRAVITY_def)
  moreover have "0 < real_of_int (raw_score l c s)" using assms(1) by simp
  ultimately show ?thesis
    unfolding decaying_score_def using pos
    by (intro divide_strict_left_mono mult_pos_pos)
qed

lemma decaying_score_sql_text:
  "decaying_score_sql =
     ''(\<newline>'' @
     ''        ((like_count * 3 + comment_count * 4 + (CASE WHEN staff_pick THEN 30 ELSE 0 END))) \<newline>'' @
     ''        /\<newline>'' @
     ''        POWER((EXTRACT(EPOCH FROM (NOW() - COALESCE(published_at, created_at))) / 3600) + 2, 0.35)\<newline>'' @
     ''    )''"
  by (simp add: decaying_score_sql_def score_expr_text GRAVITY_text_def)

text \<open>
  Claim C9. The ranking \<^verbatim>\<open>decaying_likes\<close> orders by the expression written out below:
  the sum with the weights 3, 4 and 30, divided by the power of the age in hours plus 2
  with the exponent 0.35. Read in exact arithmetic, its value is
  \<open>(likes * 3 + comments * 4 + (30 if staff pick else 0)) / (age + 2) ^ 0.35\<close>. For fixed
  counters with a positive weighted sum, the value strictly decreases as the age in hours
  grows (for every age above -2, so for every age that is not negative).
\<close>

theorem decaying_score_formula:
  "sort_column ''decaying_likes'' =
     ''(\<newline>'' @
     ''        ((like_count * 3 + comment_count * 4 + (CASE WHEN staff_pick THEN 30 ELSE 0 END))) \<newline>'' @
     ''        /\<newline>'' @
     ''        POWER((EXTRACT(EPOCH FROM (NOW() - COALESCE(published_at, created_at))) / 3600) + 2, 0.35)\<newline>'' @
     ''    )''
   \<and> sort_column ''decaying_likes'' = decaying_score_sql
   \<and> score_expr = ''(like_count * 3 + comment_count * 4 + (CASE WHEN staff_pick THEN 30 ELSE 0 END))''
   \<and> GRAVITY_text = ''0.35''
   \<and> decaying_score l c s age
       = real_of_int (l * 3 + c * 4 + (if s then 30 else 0)) / (age + 2) powr 0.35
   \<and> (0 < raw_score l c s \<longrightarrow> - 2 < a1 \<longrightarrow> a1 < a2 \<longrightarrow>
        decaying_score l c s a2 < decaying_score l c s a1)"
proof -
  have col: "sort_column ''decaying_likes'' = decaying_score_sql"
    by (simp add: sort_column_def)
  have "sort_column ''decaying_likes'' =
     ''(\<newline>'' @
     ''        ((like_count * 3 + comment_count * 4 + (CASE WHEN staff_pick THEN 30 ELSE 0 END))) \<newline>'' @
     ''        /\<newline>'' @
     ''        POWER((EXTRACT(EPOCH FROM (NOW() - COALESCE(published_at, created_at))) / 3600) + 2, 0.35)\<newline>'' @
     ''    )''"
    unfolding col by (rule decaying_score_sql_text)
  moreover note col
  moreover have "decaying_score l c s age
       = real_of_int (l * 3 + c * 4 + (if s then 30 else 0)) / (age + 2) powr 0.35"
    by (simp add: decaying_score_def raw_score_def W_LIKE_def W_COMMENT_def W_STAFF_def GRAVITY_def)
  ultimately show ?thesis
    using decaying_score_less [of l c s a1 a2] score_expr_text
    by (simp add: GRAVITY_text_def)
qed

text \<open>The example of the specification: a weighted sum of 10, at the ages 0 and 100.\<close>

theorem decaying_score_formula_witness:
  "0 < raw_score 2 1 False \<and> (- 2 :: real) < 0 \<and> (0 :: real) < 100
   \<and> raw_score 2 1 False = 10
   \<and> decaying_score 2 1 False 100 < decaying_score 2 1 False 0"
proof -
  have h: "0 < raw_score 2 1 False" "raw_score 2 1 False = 10"
    by (simp_all add: raw_score_def W_LIKE_def W_COMMENT_def W_STAFF_def)
  from decaying_score_formula [of 2 1 False 0 0 100] h show ?thesis by simp
qed

section \<open>Properties of the session slots\<close>

text \<open>
  The Python function rejects every session type but the two, and otherwise binds the
  token as \<^verbatim>\<open>$3\<close> and the expiry as \<^verbatim>\<open>$4\<close> of the session query.
\<close>

lemma new_session_parameters:
  "create_account_if_not_exists_and_new_session skey sid h u ''game'' e
     = Inr (ExecutableQuery upsert_sql [PStr sid, PInt h, PStr u],
            SelectQuery ''SessionData'' session_sql [PStr sid, PStr ''game'', PStr skey, PInt e])"
  "create_account_if_not_exists_and_new_session skey sid h u ''external'' e
     = Inr (ExecutableQuery upsert_sql [PStr sid, PInt h, PStr u],
            SelectQuery ''SessionData'' session_sql [PStr sid, PStr ''external'', PStr skey, PInt e])"
  "create_account_if_not_exists_and_new_session skey sid h u ''web'' e
     = Inl (ValueError ''invalid session type. must be 'game' or 'external'.'')"
  by (simp_all add: create_account_if_not_exists_and_new_session_def)

lemma slot_key_cases: "(\<forall>k. P k) = (P Slot1 \<and> P Slot2 \<and> P Slot3)"
  by (metis slot_key.exhaust)

text \<open>The ELSE branch on three sessions: the least expiry, and the lowest key among equals.\<close>

lemma oldest_key_full:
  assumes "ss Slot1 = Some s1" "ss Slot2 = Some s2" "ss Slot3 = Some s3"
  shows "oldest_key (Some ss) =
     Some (if expires s1 \<le> expires s2 \<and> expires s1 \<le> expires s3 then Slot1
           else if expires s2 \<le> expires s3 then Slot2 else Slot3)"
  using assms by (auto simp: oldest_key_def jsonb_each_def)

text \<open>With the object of the session type in place, the slot that is selected is written and read back.\<close>

lemma session_query_written:
  assumes "slot_to_use (Some ss) now = Some k"
  shows "session_query (Some ss) now skey expiry
     = Some (Some (ss(k := Some \<lparr>session_key = skey, expires = expiry\<rparr>)), Some skey, Some expiry)"
  using assms by (simp add: session_query_def jsonb_set_def jsonb_extract_path_def)

lemma slot_to_use_first_free:
  assumes "slot_free (Some ss) now j"
  shows "\<exists>k. slot_to_use (Some ss) now = Some k \<and> slot_free (Some ss) now k
           \<and> slot_index k \<le> slot_index j"
  using assms by (cases j) (auto simp: slot_to_use_def slot_index_def)

lemma slot_to_use_oldest:
  assumes "\<forall>j. \<not> slot_free (Some ss) now j"
  shows "\<exists>k s. slot_to_use (Some ss) now = Some k \<and> ss k = Some s
           \<and> (\<forall>j s'. ss j = Some s' \<longrightarrow>
                 expires s \<le> expires s'
                 \<and> (expires s' = expires s \<longrightarrow> slot_index k \<le> slot_index j))"
proof -
  from assms obtain s1 s2 s3
    where s: "ss Slot1 = Some s1" "ss Slot2 = Some s2" "ss Slot3 = Some s3"
    by (auto simp: slot_key_cases slot_free_def jsonb_extract_path_def split: option.splits)
  from assms have sel: "slot_to_use (Some ss) now = oldest_key (Some ss)"
    by (simp add: slot_to_use_def)
  consider (one) "expires s1 \<le> expires s2" "expires s1 \<le> expires s3"
    | (two) "\<not> (expires s1 \<le> expires s2 \<and> expires s1 \<le> expires s3)" "expires s2 \<le> expires s3"
    | (three) "\<not> (expires s1 \<le> expires s2 \<and> expires s1 \<le> expires s3)" "\<not> expires s2 \<le> expires s3"
    by blast
  then show ?thesis
  proof cases
    case one
    then have "slot_to_use (Some ss) now = Some Slot1"
      by (simp add: sel oldest_key_full [OF s])
    moreover have "expires s1 \<le> expires s' \<and> (expires s' = expires s1 \<longrightarrow> slot_index Slot1 \<le> slot_index j)"
      if "ss j = Some s'" for j s'
      using that one s by (cases j) (auto simp: slot_index_def)
    ultimately show ?thesis using s(1) by blast
  next
    case two
    then have "slot_to_use (Some ss) now = Some Slot2"
      by (simp add: sel oldest_key_full [OF s])
    moreover have "expires s2 \<le> expires s' \<and> (expires s' = expires s2 \<longrightarrow> slot_index Slot2 \<le> slot_index j)"
      if "ss j = Some s'" for j s'
      using that two s by (cases j) (auto simp: slot_index_def)
    ultimately show ?thesis using s(2) by blast
  next
    case three
    then have "slot_to_use (Some ss) now = Some Slot3"
      by (simp add: sel oldest_key_full [OF s])
    moreover have "expires s3 \<le> expires s' \<and> (expires s' = expires s3 \<longrightarrow> slot_index Slot3 \<le> slot_index j)"
      if "ss j = Some s'" for j s'
      using that three s by (cases j) (auto simp: slot_index_def)
    ultimately show ?thesis using s(3) by blast
  qed
qed

text \<open>
  What holds whenever the object of the session type is in place. The query selects a
  slot: the first one in the order 1, 2, 3 that is empty or whose expiry is strictly
  before the time of the storage engine; when all three are active, the slot whose expiry
  is the least, and the one with the lowest index among several such. The selected slot
  is overwritten with the new token and expiry, the other slots are kept, and the returned
  token and expiry are the ones read from the written slot.
\<close>

lemma slot_selection:
  "\<exists>k. slot_to_use (Some ss) now = Some k
     \<and> (\<forall>j. slot_free (Some ss) now j \<longrightarrow> slot_free (Some ss) now k \<and> slot_index k \<le> slot_index j)
     \<and> ((\<forall>j. \<not> slot_free (Some ss) now j) \<longrightarrow>
          (\<exists>s. ss k = Some s
             \<and> (\<forall>j s'. ss j = Some s' \<longrightarrow>
                   expires s \<le> expires s'
                   \<and> (expires s' = expires s \<longrightarrow> slot_index k \<le> slot_index j))))
     \<and> session_query (Some ss) now skey expiry
         = Some (Some (ss(k := Some \<lparr>session_key = skey, expires = expiry\<rparr>)), Some skey, Some expiry)"
proof (cases "\<exists>j. slot_free (Some ss) now j")
  case True
  then obtain j0 where "slot_free (Some ss) now j0" ..
  from slot_to_use_first_free [OF this]
  obtain k where k: "slot_to_use (Some ss) now = Some k" "slot_free (Some ss) now k" by blast
  have "slot_index k \<le> slot_index j" if "slot_free (Some ss) now j" for j
    using slot_to_use_first_free [OF that] k(1) by auto
  with k True session_query_written [OF k(1)] show ?thesis by blast
next
  case False
  then have none: "\<forall>j. \<not> slot_free (Some ss) now j" by blast
  from slot_to_use_oldest [OF none]
  obtain k s where k: "slot_to_use (Some ss) now = Some k" "ss k = Some s"
    "\<forall>j s'. ss j = Some s' \<longrightarrow>
        expires s \<le> expires s' \<and> (expires s' = expires s \<longrightarrow> slot_index k \<le> slot_index j)"
    by blast
  with none session_query_written [OF k(1)] show ?thesis by blast
qed

text \<open>
  The examples of the specification: with expiries 100, 300 and 200 and a request at time
  50, the first slot is selected; with the first slot active, the second expired and the
  third empty, the second is. And with expiries 100, 100 and 200 the first slot is
  selected, the lower of the two that expire first.
\<close>

lemma slot_to_use_examples:
  "slot_to_use (Some full_sessions) 50 = Some Slot1"
  "slot_to_use (Some tied_sessions) 50 = Some Slot1"
  "slot_to_use (Some ((\<lambda>_. None)(Slot1 := Some \<lparr>session_key = ''a'', expires = 900\<rparr>,
       Slot2 := Some \<lparr>session_key = ''b'', expires = 10\<rparr>))) 50 = Some Slot2"
  by (simp_all add: slot_to_use_def slot_free_def jsonb_extract_path_def full_sessions_def
      tied_sessions_def oldest_key_def jsonb_each_def)

text \<open>
  Claim C8. For every state of the slots, the selected slot is to be overwritten with the
  new token and expiry, and these are to be returned as read from the written slot. For
  an account whose row has no object for the session type (its \<^verbatim>\<open>sonolus_sessions\<close> is
  NULL or lacks the key), the query selects the first slot, writes nothing and returns
  NULL for both the token and the expiry.
\<close>

theorem session_not_written_without_object:
  "slot_to_use None 50 = Some Slot1
   \<and> session_query None 50 ''k'' 1800050 = Some (None, None, None)"
  by (simp add: session_query_def slot_to_use_def slot_free_def jsonb_extract_path_def jsonb_set_def)

section \<open>Properties of the filters\<close>

subsection \<open>One step\<close>

lemma add_filter_None [simp]: "add_filter None frag st = st"
  by (simp add: add_filter_def)

lemma add_join_None [simp]: "add_join None frag st = st"
  by (simp add: add_join_def)

lemma add_filter_Some:
  "params (add_filter (Some p) frag st) = params st @ [p]"
  "conditions (add_filter (Some p) frag st)
     = conditions st @ [frag (''$'' @ show_nat (Suc (length (params st))))]"
  "inner_select (add_filter (Some p) frag st) = inner_select st"
  by (simp_all add: add_filter_def Let_def placeholder_def)

lemma add_join_Some:
  "params (add_join (Some p) frag st) = params st @ [p]"
  "conditions (add_join (Some p) frag st) = conditions st"
  "inner_select (add_join (Some p) frag st)
     = inner_select st @ frag (''$'' @ show_nat (Suc (length (params st))))"
  by (simp_all add: add_join_def Let_def placeholder_def)

lemma grows_add_filter: "grows (add_filter v frag)"
  by (cases v) (simp_all add: grows_def add_filter_Some)

lemma grows_add_join: "grows (add_join v frag)"
  by (cases v) (simp_all add: grows_def add_join_Some)

lemma grows_owner_or_handle: "grows (owner_or_handle a)"
  by (simp add: owner_or_handle_def grows_add_filter split: option.splits)

lemma grows_filter_steps: "f \<in> set (filter_steps a) \<Longrightarrow> grows f"
  by (auto simp: filter_steps_def grows_add_filter grows_add_join grows_owner_or_handle)

lemma add_filter_keeps:
  "(\<And>p ph. v = Some p \<Longrightarrow> Q (frag ph))
   \<Longrightarrow> list_all Q (conditions st) \<Longrightarrow> list_all Q (conditions (add_filter v frag st))"
  by (cases v) (simp_all add: add_filter_Some)

lemma add_join_keeps:
  "list_all Q (conditions st) \<Longrightarrow> list_all Q (conditions (add_join v frag st))"
  by (cases v) (simp_all add: add_join_Some)

subsection \<open>The sequence of steps\<close>

text \<open>What was appended stays: the later steps only append.\<close>

lemma grows_fold:
  "(\<And>f. f \<in> set fs \<Longrightarrow> grows f)
   \<Longrightarrow> prefix (params st) (params (fold (\<lambda>step s. step s) fs st))
       \<and> prefix (conditions st) (conditions (fold (\<lambda>step s. step s) fs st))"
proof (induction fs arbitrary: st)
  case Nil
  then show ?case by simp
next
  case (Cons f fs)
  have "grows f" using Cons.prems by simp
  then have 1: "prefix (params st) (params (f st))" "prefix (conditions st) (conditions (f st))"
    by (simp_all add: grows_def)
  have 2: "prefix (params (f st)) (params (fold (\<lambda>step s. step s) fs (f st)))
       \<and> prefix (conditions (f st)) (conditions (fold (\<lambda>step s. step s) fs (f st)))"
    using Cons.prems by (intro Cons.IH) simp
  show ?case using 1 2 by (auto intro: prefix_order.trans)
qed

lemma fold_keeps:
  "(\<And>f s. f \<in> set fs \<Longrightarrow> P s \<Longrightarrow> P (f s)) \<Longrightarrow> P st \<Longrightarrow> P (fold (\<lambda>step s. step s) fs st)"
  by (induction fs arbitrary: st) simp_all

text \<open>A property of fragments that every step keeps holds of every compiled condition.\<close>

lemma conditions_all:
  assumes "\<And>f s. f \<in> set (filter_steps a) \<Longrightarrow> list_all Q (conditions s)
             \<Longrightarrow> list_all Q (conditions (f s))"
  shows "list_all Q (conditions (compile_filters a))"
  unfolding compile_filters_def
proof (rule fold_keeps)
  show "list_all Q (conditions (initial_state a))"
    by (simp add: initial_state_def)
next
  fix f and s :: build_state
  assume "f \<in> set (filter_steps a)" and "list_all Q (conditions s)"
  then show "list_all Q (conditions (f s))" by (rule assms)
qed

lemma compile_filters_split:
  assumes "i < length (filter_steps a)"
  shows "compile_filters a
    = fold (\<lambda>step s. step s) (drop (Suc i) (filter_steps a))
        ((filter_steps a ! i) (fold (\<lambda>step s. step s) (take i (filter_steps a)) (initial_state a)))"
proof -
  have "filter_steps a = take i (filter_steps a) @ filter_steps a ! i # drop (Suc i) (filter_steps a)"
    using assms by (rule id_take_nth_drop)
  then have "compile_filters a = fold (\<lambda>step s. step s)
      (take i (filter_steps a) @ filter_steps a ! i # drop (Suc i) (filter_steps a)) (initial_state a)"
    by (simp add: compile_filters_def)
  then show ?thesis by simp
qed

lemma length_filter_steps: "length (filter_steps a) = 18"
  by (simp add: filter_steps_def)

text \<open>
  A filter whose guard holds leaves its value in \<^verbatim>\<open>params\<close> at some position \<open>k\<close>
  (counted from 1) and its fragment, written with \<^verbatim>\<open>$k\<close>, in \<^verbatim>\<open>conditions\<close>.
\<close>

lemma filter_emitted:
  assumes i: "i < length (filter_steps a)"
    and step: "filter_steps a ! i = add_filter (Some p) frag"
  shows "\<exists>k. 0 < k \<and> k \<le> length (params (compile_filters a))
           \<and> params (compile_filters a) ! (k - 1) = p
           \<and> frag (''$'' @ show_nat k) \<in> set (conditions (compile_filters a))"
proof -
  define st where "st = fold (\<lambda>step s. step s) (take i (filter_steps a)) (initial_state a)"
  define st' where "st' = add_filter (Some p) frag st"
  define k where "k = Suc (length (params st))"
  have fin: "compile_filters a = fold (\<lambda>step s. step s) (drop (Suc i) (filter_steps a)) st'"
    using compile_filters_split [OF i] by (simp add: st_def st'_def step)
  have "\<And>f. f \<in> set (drop (Suc i) (filter_steps a)) \<Longrightarrow> grows f"
    by (meson grows_filter_steps in_set_dropD)
  then have pre: "prefix (params st') (params (compile_filters a))"
    "prefix (conditions st') (conditions (compile_filters a))"
    unfolding fin using grows_fold by blast+
  have ps: "params st' = params st @ [p]"
    and cs: "conditions st' = conditions st @ [frag (''$'' @ show_nat k)]"
    by (simp_all add: st'_def k_def add_filter_Some)
  obtain zs where zs: "params (compile_filters a) = (params st @ [p]) @ zs"
    using pre(1) ps by (auto simp: prefix_def)
  have "params (compile_filters a) ! (k - 1) = p"
    by (simp add: zs k_def nth_append)
  moreover have "k \<le> length (params (compile_filters a))"
    by (simp add: zs k_def)
  moreover have "frag (''$'' @ show_nat k) \<in> set (conditions (compile_filters a))"
    using pre(2) cs by (auto simp: prefix_def)
  ultimately show ?thesis by (auto simp: k_def intro!: exI [of _ k])
qed

text \<open>The example call, compiled.\<close>

lemma example_args_compiled:
  "params (compile_filters example_args)
     = [PStr ''PUBLIC'', PInt 4, PInt 10, PStr ''u1'', PStr ''%ab%'']"
  "conditions (compile_filters example_args)
     = [''c.status = $1::chart_status'', ''c.rating > $2'', ''c.rating < $3'', ''c.author = $4'',
        ''(LOWER(c.title) LIKE $5 OR LOWER(c.description) LIKE $5 OR LOWER(c.chart_author || '#' || a.sonolus_handle) LIKE $5 OR LOWER(c.artists) LIKE $5)'']"
  by (simp_all add: example_args_def default_args_def compile_filters_def filter_steps_def
      initial_state_def owner_or_handle_def add_filter_def add_join_def placeholder_def Let_def
      show_nat.simps digit_char_def truthy_int_def like_pattern_def lower_def lower_char_def
      meta_fragment_def)

subsection \<open>Rating bounds\<close>

text \<open>
  Claim C5. When \<^verbatim>\<open>min_rating\<close> is \<open>m\<close>, the compiled conditions contain
  \<^verbatim>\<open>c.rating > $k\<close> for a position \<open>k\<close> at which the bound parameter is \<open>m - 1\<close>; when
  \<^verbatim>\<open>max_rating\<close> is \<open>M\<close>, they contain \<^verbatim>\<open>c.rating < $k\<close> for a position at which the
  bound parameter is \<open>M + 1\<close>. On every integer rating the two strict comparisons with
  these parameters hold exactly when the rating is between \<open>m\<close> and \<open>M\<close>, both included.
\<close>

theorem rating_bounds:
  "(min_rating a = Some m \<longrightarrow>
      (\<exists>k. 0 < k \<and> k \<le> length (params (compile_filters a))
          \<and> params (compile_filters a) ! (k - 1) = PInt (m - 1)
          \<and> ''c.rating > $'' @ show_nat k \<in> set (conditions (compile_filters a))))
   \<and> (max_rating a = Some M \<longrightarrow>
      (\<exists>k. 0 < k \<and> k \<le> length (params (compile_filters a))
          \<and> params (compile_filters a) ! (k - 1) = PInt (M + 1)
          \<and> ''c.rating < $'' @ show_nat k \<in> set (conditions (compile_filters a))))
   \<and> (rating_above (PInt (m - 1)) r \<and> rating_below (PInt (M + 1)) r) = (m \<le> r \<and> r \<le> M)"
proof (intro conjI impI)
  assume "min_rating a = Some m"
  then have "filter_steps a ! 3 = add_filter (Some (PInt (m - 1))) (\<lambda>p. ''c.rating > '' @ p)"
    by (simp add: filter_steps_def)
  from filter_emitted [OF _ this]
  show "\<exists>k. 0 < k \<and> k \<le> length (params (compile_filters a))
          \<and> params (compile_filters a) ! (k - 1) = PInt (m - 1)
          \<and> ''c.rating > $'' @ show_nat k \<in> set (conditions (compile_filters a))"
    by (simp add: length_filter_steps)
next
  assume "max_rating a = Some M"
  then have "filter_steps a ! 4 = add_filter (Some (PInt (M + 1))) (\<lambda>p. ''c.rating < '' @ p)"
    by (simp add: filter_steps_def)
  from filter_emitted [OF _ this]
  show "\<exists>k. 0 < k \<and> k \<le> length (params (compile_filters a))
          \<and> params (compile_filters a) ! (k - 1) = PInt (M + 1)
          \<and> ''c.rating < $'' @ show_nat k \<in> set (conditions (compile_filters a))"
    by (simp add: length_filter_steps)
next
  show "(rating_above (PInt (m - 1)) r \<and> rating_below (PInt (M + 1)) r) = (m \<le> r \<and> r \<le> M)"
    by (auto simp: rating_above_def rating_below_def)
qed

theorem rating_bounds_witness:
  "min_rating example_args = Some 5 \<and> max_rating example_args = Some 9
   \<and> (\<exists>k. 0 < k \<and> k \<le> length (params (compile_filters example_args))
          \<and> params (compile_filters example_args) ! (k - 1) = PInt (5 - 1)
          \<and> ''c.rating > $'' @ show_nat k \<in> set (conditions (compile_filters example_args)))
   \<and> (\<exists>k. 0 < k \<and> k \<le> length (params (compile_filters example_args))
          \<and> params (compile_filters example_args) ! (k - 1) = PInt (9 + 1)
          \<and> ''c.rating < $'' @ show_nat k \<in> set (conditions (compile_filters example_args)))"
proof -
  have h: "min_rating example_args = Some 5" "max_rating example_args = Some 9"
    by (simp_all add: example_args_def)
  from rating_bounds [of example_args 5 9 0] h show ?thesis by blast
qed

subsection \<open>The combined text filter\<close>

text \<open>The last step is the combined filter; the steps before it do not read its argument.\<close>

lemma compile_filters_meta:
  "compile_filters a
     = add_filter (map_option (\<lambda>s. PStr (like_pattern s)) (truthy (meta_includes a))) meta_fragment
         (compile_filters (a\<lparr>meta_includes := None\<rparr>))"
  by (simp add: compile_filters_def filter_steps_def initial_state_def owner_or_handle_def
      cong: option.case_cong)

text \<open>The lower-casing on ASCII text.\<close>

lemma lower_examples:
  "lower ''ABCDEFGHIJKLMNOPQRSTUVWXYZ'' = ''abcdefghijklmnopqrstuvwxyz''"
  "lower ''az09 %_#'' = ''az09 %_#''"
  by (simp_all add: lower_def lower_char_def)

text \<open>
  Claim C6. When \<^verbatim>\<open>meta_includes\<close> is given (a string that is not empty), the compiled
  state is the state compiled without it, with exactly one parameter appended and
  exactly one condition appended: the four matches on title, description, full author
  and artists, joined by OR, each written with the position \<open>k\<close> of that one parameter.
  The inner SELECT is unchanged. For an ASCII string the parameter is the lower-cased
  string between two \<^verbatim>\<open>%\<close>.
\<close>

theorem meta_filter_one_parameter:
  "truthy (meta_includes a) = Some s \<longrightarrow>
     (\<exists>p. params (compile_filters a)
            = params (compile_filters (a\<lparr>meta_includes := None\<rparr>)) @ [p]
          \<and> (ascii s \<longrightarrow> p = PStr (''%'' @ lower s @ ''%'')))
     \<and> (\<exists>k. k = length (params (compile_filters a))
          \<and> conditions (compile_filters a)
              = conditions (compile_filters (a\<lparr>meta_includes := None\<rparr>))
                @ [''(LOWER(c.title) LIKE $'' @ show_nat k
                   @ '' OR LOWER(c.description) LIKE $'' @ show_nat k
                   @ '' OR LOWER(c.chart_author || '#' || a.sonolus_handle) LIKE $'' @ show_nat k
                   @ '' OR LOWER(c.artists) LIKE $'' @ show_nat k @ '')''])
     \<and> inner_select (compile_filters a) = inner_select (compile_filters (a\<lparr>meta_includes := None\<rparr>))"
proof
  assume m: "truthy (meta_includes a) = Some s"
  have eq: "compile_filters a
     = add_filter (Some (PStr (like_pattern s))) meta_fragment
         (compile_filters (a\<lparr>meta_includes := None\<rparr>))"
    using compile_filters_meta [of a] by (simp add: m)
  have "params (compile_filters a)
       = params (compile_filters (a\<lparr>meta_includes := None\<rparr>)) @ [PStr (''%'' @ lower s @ ''%'')]"
    unfolding eq by (simp add: add_filter_Some like_pattern_def)
  then have 1: "\<exists>p. params (compile_filters a)
            = params (compile_filters (a\<lparr>meta_includes := None\<rparr>)) @ [p]
          \<and> (ascii s \<longrightarrow> p = PStr (''%'' @ lower s @ ''%''))"
    by blast
  have 2: "\<exists>k. k = length (params (compile_filters a))
          \<and> conditions (compile_filters a)
              = conditions (compile_filters (a\<lparr>meta_includes := None\<rparr>))
                @ [''(LOWER(c.title) LIKE $'' @ show_nat k
                   @ '' OR LOWER(c.description) LIKE $'' @ show_nat k
                   @ '' OR LOWER(c.chart_author || '#' || a.sonolus_handle) LIKE $'' @ show_nat k
                   @ '' OR LOWER(c.artists) LIKE $'' @ show_nat k @ '')'']"
    unfolding eq by (simp add: add_filter_Some meta_fragment_def)
  have 3: "inner_select (compile_filters a)
       = inner_select (compile_filters (a\<lparr>meta_includes := None\<rparr>))"
    unfolding eq by (simp add: add_filter_Some)
  from 1 2 3 show "(\<exists>p. params (compile_filters a)
            = params (compile_filters (a\<lparr>meta_includes := None\<rparr>)) @ [p]
          \<and> (ascii s \<longrightarrow> p = PStr (''%'' @ lower s @ ''%'')))
     \<and> (\<exists>k. k = length (params (compile_filters a))
          \<and> conditions (compile_filters a)
              = conditions (compile_filters (a\<lparr>meta_includes := None\<rparr>))
                @ [''(LOWER(c.title) LIKE $'' @ show_nat k
                   @ '' OR LOWER(c.description) LIKE $'' @ show_nat k
                   @ '' OR LOWER(c.chart_author || '#' || a.sonolus_handle) LIKE $'' @ show_nat k
                   @ '' OR LOWER(c.artists) LIKE $'' @ show_nat k @ '')''])
     \<and> inner_select (compile_filters a) = inner_select (compile_filters (a\<lparr>meta_includes := None\<rparr>))"
    by blast
qed

text \<open>
  The example call has the filter \<^verbatim>\<open>Ab\<close>: the parameter appended is \<^verbatim>\<open>%ab%\<close>, the fifth,
  and the condition is written with \<^verbatim>\<open>$5\<close> four times.
\<close>

theorem meta_filter_one_parameter_witness:
  "truthy (meta_includes example_args) = Some ''Ab''
   \<and> ascii ''Ab''
   \<and> params (compile_filters example_args)
       = params (compile_filters (example_args\<lparr>meta_includes := None\<rparr>)) @ [PStr ''%ab%'']
   \<and> conditions (compile_filters example_args)
       = conditions (compile_filters (example_args\<lparr>meta_includes := None\<rparr>))
         @ [''(LOWER(c.title) LIKE $5 OR LOWER(c.description) LIKE $5 OR LOWER(c.chart_author || '#' || a.sonolus_handle) LIKE $5 OR LOWER(c.artists) LIKE $5)'']
   \<and> inner_select (compile_filters example_args)
       = inner_select (compile_filters (example_args\<lparr>meta_includes := None\<rparr>))"
proof -
  have h: "truthy (meta_includes example_args) = Some ''Ab''"
    by (simp add: example_args_def)
  have asc: "ascii ''Ab''"
    by (simp add: ascii_def)
  have low: "''%'' @ lower ''Ab'' @ ''%'' = ''%ab%''"
    by (simp add: lower_def lower_char_def)
  have five: "show_nat (length (params (compile_filters example_args))) = ''5''"
    by (simp add: example_args_compiled show_nat.simps digit_char_def)
  from meta_filter_one_parameter [of example_args "''Ab''"] h asc
  have "params (compile_filters example_args)
       = params (compile_filters (example_args\<lparr>meta_includes := None\<rparr>))
         @ [PStr (''%'' @ lower ''Ab'' @ ''%'')]"
    and "conditions (compile_filters example_args)
       = conditions (compile_filters (example_args\<lparr>meta_includes := None\<rparr>))
         @ [''(LOWER(c.title) LIKE $'' @ show_nat (length (params (compile_filters example_args)))
            @ '' OR LOWER(c.description) LIKE $'' @ show_nat (length (params (compile_filters example_args)))
            @ '' OR LOWER(c.chart_author || '#' || a.sonolus_handle) LIKE $''
            @ show_nat (length (params (compile_filters example_args)))
            @ '' OR LOWER(c.artists) LIKE $'' @ show_nat (length (params (compile_filters example_args)))
            @ '')'']"
    and "inner_select (compile_filters example_args)
       = inner_select (compile_filters (example_args\<lparr>meta_includes := None\<rparr>))"
    by auto
  then show ?thesis
    using h asc unfolding low five by simp
qed

subsection \<open>Owner and handle\<close>

text \<open>
  No handle predicate is compiled when an owner is given, nor when the handle is absent:
  no other step writes a fragment that begins like it.
\<close>

lemma no_handle_predicate:
  assumes "truthy (owned_by a) \<noteq> None \<or> truthy_int (sonolus_handle_is a) = None"
  shows "list_all (\<lambda>c. \<not> prefix ''a.sonolus_handle = '' c) (conditions (compile_filters a))"
  using assms
  by - (rule conditions_all,
      auto simp: filter_steps_def owner_or_handle_def meta_fragment_def
        intro!: add_filter_keeps add_join_keeps split: option.splits)

lemma owner_or_handle_at: "filter_steps a ! 12 = owner_or_handle a"
  by (simp add: filter_steps_def)

text \<open>
  Claim C7. When \<^verbatim>\<open>owned_by\<close> is given (a string that is not empty), also together with
  a handle, the compiled conditions contain the ownership predicate \<^verbatim>\<open>c.author = $k\<close>,
  bound to the owner, and no handle predicate. When no owner is given and the handle is
  given (an integer other than 0), they contain the handle predicate, bound to the
  handle. A handle predicate among the conditions implies that no owner was given.
\<close>

theorem owner_suppresses_handle:
  "(truthy (owned_by a) = Some ob \<longrightarrow>
      (\<exists>k. 0 < k \<and> k \<le> length (params (compile_filters a))
          \<and> params (compile_filters a) ! (k - 1) = PStr ob
          \<and> ''c.author = $'' @ show_nat k \<in> set (conditions (compile_filters a)))
      \<and> list_all (\<lambda>c. \<not> prefix ''a.sonolus_handle = '' c) (conditions (compile_filters a)))
   \<and> (truthy (owned_by a) = None \<longrightarrow> truthy_int (sonolus_handle_is a) = Some h \<longrightarrow>
      (\<exists>k. 0 < k \<and> k \<le> length (params (compile_filters a))
          \<and> params (compile_filters a) ! (k - 1) = PInt h
          \<and> ''a.sonolus_handle = $'' @ show_nat k \<in> set (conditions (compile_filters a))))
   \<and> (list_ex (prefix ''a.sonolus_handle = '') (conditions (compile_filters a)) \<longrightarrow>
        truthy (owned_by a) = None)"
proof (intro conjI impI)
  assume ob: "truthy (owned_by a) = Some ob"
  have "owner_or_handle a = add_filter (Some (PStr ob)) (\<lambda>p. ''c.author = '' @ p)"
    by (simp only: owner_or_handle_def ob option.case)
  then have "filter_steps a ! 12 = add_filter (Some (PStr ob)) (\<lambda>p. ''c.author = '' @ p)"
    by (simp add: owner_or_handle_at)
  from filter_emitted [OF _ this]
  show "\<exists>k. 0 < k \<and> k \<le> length (params (compile_filters a))
          \<and> params (compile_filters a) ! (k - 1) = PStr ob
          \<and> ''c.author = $'' @ show_nat k \<in> set (conditions (compile_filters a))"
    by (simp add: length_filter_steps)
  show "list_all (\<lambda>c. \<not> prefix ''a.sonolus_handle = '' c) (conditions (compile_filters a))"
    using ob by (intro no_handle_predicate) simp
next
  assume h: "truthy (owned_by a) = None" "truthy_int (sonolus_handle_is a) = Some h"
  have "owner_or_handle a = add_filter (Some (PInt h)) (\<lambda>p. ''a.sonolus_handle = '' @ p)"
    by (simp only: owner_or_handle_def h option.case option.map)
  then have "filter_steps a ! 12 = add_filter (Some (PInt h)) (\<lambda>p. ''a.sonolus_handle = '' @ p)"
    by (simp add: owner_or_handle_at)
  from filter_emitted [OF _ this]
  show "\<exists>k. 0 < k \<and> k \<le> length (params (compile_filters a))
          \<and> params (compile_filters a) ! (k - 1) = PInt h
          \<and> ''a.sonolus_handle = $'' @ show_nat k \<in> set (conditions (compile_filters a))"
    by (simp add: length_filter_steps)
next
  assume ex: "list_ex (prefix ''a.sonolus_handle = '') (conditions (compile_filters a))"
  show "truthy (owned_by a) = None"
  proof (rule ccontr)
    assume "truthy (owned_by a) \<noteq> None"
    then have "list_all (\<lambda>c. \<not> prefix ''a.sonolus_handle = '' c) (conditions (compile_filters a))"
      by (intro no_handle_predicate) simp
    with ex show False by (auto simp: list_all_iff list_ex_iff)
  qed
qed

theorem owner_suppresses_handle_witness:
  "truthy (owned_by example_args) = Some ''u1''
   \<and> truthy_int (sonolus_handle_is example_args) = Some 7
   \<and> (\<exists>k. 0 < k \<and> k \<le> length (params (compile_filters example_args))
          \<and> params (compile_filters example_args) ! (k - 1) = PStr ''u1''
          \<and> ''c.author = $'' @ show_nat k \<in> set (conditions (compile_filters example_args)))
   \<and> list_all (\<lambda>c. \<not> prefix ''a.sonolus_handle = '' c) (conditions (compile_filters example_args))"
proof -
  have h: "truthy (owned_by example_args) = Some ''u1''"
    "truthy_int (sonolus_handle_is example_args) = Some 7"
    by (simp_all add: example_args_def truthy_int_def)
  from owner_suppresses_handle [of example_args "''u1''" 7] h show ?thesis by blast
qed

subsection \<open>Arguments that are given but false\<close>

lemma no_status_predicate:
  assumes "truthy (status a) = None"
  shows "list_all (\<lambda>c. \<not> prefix ''c.status = '' c) (conditions (compile_filters a))"
  using assms
  by - (rule conditions_all,
      auto simp: filter_steps_def owner_or_handle_def meta_fragment_def
        intro!: add_filter_keeps add_join_keeps split: option.splits)

lemma no_tags_predicate:
  assumes "truthy (tags a) = None"
  shows "list_all (\<lambda>c. \<not> prefix ''c.tags @> '' c) (conditions (compile_filters a))"
  using assms
  by - (rule conditions_all,
      auto simp: filter_steps_def owner_or_handle_def meta_fragment_def
        intro!: add_filter_keeps add_join_keeps split: option.splits)

lemma no_title_predicate:
  assumes "truthy (title_includes a) = None"
  shows "list_all (\<lambda>c. \<not> prefix ''LOWER(c.title) LIKE '' c) (conditions (compile_filters a))"
  using assms
  by - (rule conditions_all,
      auto simp: filter_steps_def owner_or_handle_def meta_fragment_def
        intro!: add_filter_keeps add_join_keeps split: option.splits)

lemma no_description_predicate:
  assumes "truthy (description_includes a) = None"
  shows "list_all (\<lambda>c. \<not> prefix ''LOWER(c.description) LIKE '' c) (conditions (compile_filters a))"
  using assms
  by - (rule conditions_all,
      auto simp: filter_steps_def owner_or_handle_def meta_fragment_def
        intro!: add_filter_keeps add_join_keeps split: option.splits)

lemma no_artists_predicate:
  assumes "truthy (artists_includes a) = None"
  shows "list_all (\<lambda>c. \<not> prefix ''LOWER(c.artists) LIKE '' c) (conditions (compile_filters a))"
  using assms
  by - (rule conditions_all,
      auto simp: filter_steps_def owner_or_handle_def meta_fragment_def
        intro!: add_filter_keeps add_join_keeps split: option.splits)

lemma no_author_predicate:
  assumes "truthy (author_includes a) = None"
  shows "list_all (\<lambda>c. \<not> prefix ''LOWER(c.chart_author || '' c) (conditions (compile_filters a))"
  using assms
  by - (rule conditions_all,
      auto simp: filter_steps_def owner_or_handle_def meta_fragment_def
        intro!: add_filter_keeps add_join_keeps split: option.splits)

lemma no_meta_predicate:
  assumes "truthy (meta_includes a) = None"
  shows "list_all (\<lambda>c. \<not> prefix ''(LOWER(c.title) LIKE '' c) (conditions (compile_filters a))"
  using assms
  by - (rule conditions_all,
      auto simp: filter_steps_def owner_or_handle_def meta_fragment_def
        intro!: add_filter_keeps add_join_keeps split: option.splits)

text \<open>A false value gives the same two queries as no value at all.\<close>

lemma falsy_is_absent:
  "get_chart_list (a\<lparr>status := Some []\<rparr>) = get_chart_list (a\<lparr>status := None\<rparr>)"
  "get_chart_list (a\<lparr>sonolus_handle_is := Some 0\<rparr>) = get_chart_list (a\<lparr>sonolus_handle_is := None\<rparr>)"
  "get_chart_list (a\<lparr>tags := Some []\<rparr>) = get_chart_list (a\<lparr>tags := None\<rparr>)"
  "get_chart_list (a\<lparr>title_includes := Some []\<rparr>) = get_chart_list (a\<lparr>title_includes := None\<rparr>)"
  "get_chart_list (a\<lparr>description_includes := Some []\<rparr>)
     = get_chart_list (a\<lparr>description_includes := None\<rparr>)"
  "get_chart_list (a\<lparr>artists_includes := Some []\<rparr>) = get_chart_list (a\<lparr>artists_includes := None\<rparr>)"
  "get_chart_list (a\<lparr>author_includes := Some []\<rparr>) = get_chart_list (a\<lparr>author_includes := None\<rparr>)"
  "get_chart_list (a\<lparr>meta_includes := Some []\<rparr>) = get_chart_list (a\<lparr>meta_includes := None\<rparr>)"
  by (simp_all add: get_chart_list_def final_inner_select_def compile_filters_def filter_steps_def
      initial_state_def owner_or_handle_def page_tail_def truthy_int_def cong: option.case_cong)

text \<open>The same holds of the other arguments that are tested for truth.\<close>

lemma falsy_is_absent_relations:
  "get_chart_list (a\<lparr>liked_by := Some []\<rparr>) = get_chart_list (a\<lparr>liked_by := None\<rparr>)"
  "get_chart_list (a\<lparr>commented_by := Some []\<rparr>) = get_chart_list (a\<lparr>commented_by := None\<rparr>)"
  "get_chart_list (a\<lparr>owned_by := Some []\<rparr>) = get_chart_list (a\<lparr>owned_by := None\<rparr>)"
  "get_chart_list (a\<lparr>sonolus_id := Some []\<rparr>) = get_chart_list (a\<lparr>sonolus_id := None\<rparr>)"
  by (simp_all add: get_chart_list_def final_inner_select_def compile_filters_def filter_steps_def
      initial_state_def owner_or_handle_def page_tail_def truthy_int_def cong: option.case_cong)

text \<open>
  Claim C10. An argument of \<^verbatim>\<open>get_chart_list\<close> that is given with a false value is
  treated as absent: the empty status, the handle 0, the empty tag list and the empty
  filter strings give the very queries that \<^verbatim>\<open>None\<close> gives. And when the status is
  \<^verbatim>\<open>None\<close> or empty, no compiled condition is a status predicate (charts of every status
  match); when the handle is \<^verbatim>\<open>None\<close> or 0, none is a handle predicate; when the tag
  list or a filter string is \<^verbatim>\<open>None\<close> or empty, none is its predicate.
\<close>

theorem falsy_arguments_are_absent:
  "get_chart_list (a\<lparr>status := Some []\<rparr>) = get_chart_list (a\<lparr>status := None\<rparr>)
   \<and> get_chart_list (a\<lparr>sonolus_handle_is := Some 0\<rparr>) = get_chart_list (a\<lparr>sonolus_handle_is := None\<rparr>)
   \<and> get_chart_list (a\<lparr>tags := Some []\<rparr>) = get_chart_list (a\<lparr>tags := None\<rparr>)
   \<and> get_chart_list (a\<lparr>title_includes := Some []\<rparr>) = get_chart_list (a\<lparr>title_includes := None\<rparr>)
   \<and> get_chart_list (a\<lparr>description_includes := Some []\<rparr>)
       = get_chart_list (a\<lparr>description_includes := None\<rparr>)
   \<and> get_chart_list (a\<lparr>artists_includes := Some []\<rparr>) = get_chart_list (a\<lparr>artists_includes := None\<rparr>)
   \<and> get_chart_list (a\<lparr>author_includes := Some []\<rparr>) = get_chart_list (a\<lparr>author_includes := None\<rparr>)
   \<and> get_chart_list (a\<lparr>meta_includes := Some []\<rparr>) = get_chart_list (a\<lparr>meta_includes := None\<rparr>)
   \<and> (truthy (status a) = None \<longrightarrow>
        list_all (\<lambda>c. \<not> prefix ''c.status = '' c) (conditions (compile_filters a)))
   \<and> (truthy_int (sonolus_handle_is a) = None \<longrightarrow>
        list_all (\<lambda>c. \<not> prefix ''a.sonolus_handle = '' c) (conditions (compile_filters a)))
   \<and> (truthy (tags a) = None \<longrightarrow>
        list_all (\<lambda>c. \<not> prefix ''c.tags @> '' c) (conditions (compile_filters a)))
   \<and> (truthy (title_includes a) = None \<longrightarrow>
        list_all (\<lambda>c. \<not> prefix ''LOWER(c.title) LIKE '' c) (conditions (compile_filters a)))
   \<and> (truthy (description_includes a) = None \<longrightarrow>
        list_all (\<lambda>c. \<not> prefix ''LOWER(c.description) LIKE '' c) (conditions (compile_filters a)))
   \<and> (truthy (artists_includes a) = None \<longrightarrow>
        list_all (\<lambda>c. \<not> prefix ''LOWER(c.artists) LIKE '' c) (conditions (compile_filters a)))
   \<and> (truthy (author_includes a) = None \<longrightarrow>
        list_all (\<lambda>c. \<not> prefix ''LOWER(c.chart_author || '' c) (conditions (compile_filters a)))
   \<and> (truthy (meta_includes a) = None \<longrightarrow>
        list_all (\<lambda>c. \<not> prefix ''(LOWER(c.title) LIKE '' c) (conditions (compile_filters a)))"
  by (intro conjI impI falsy_is_absent no_status_predicate no_handle_predicate no_tags_predicate
      no_title_predicate no_description_predicate no_artists_predicate no_author_predicate
      no_meta_predicate disjI2)

text \<open>The call with false values compiles to the rating predicate alone.\<close>

lemma falsy_args_compiled:
  "params (compile_filters falsy_args) = [PInt 4]"
  "conditions (compile_filters falsy_args) = [''c.rating > $1'']"
  by (simp_all add: falsy_args_def default_args_def compile_filters_def filter_steps_def
      initial_state_def owner_or_handle_def add_filter_def add_join_def placeholder_def Let_def
      show_nat.simps digit_char_def truthy_int_def)

theorem falsy_arguments_are_absent_witness:
  "truthy (status falsy_args) = None
   \<and> truthy_int (sonolus_handle_is falsy_args) = None
   \<and> truthy (tags falsy_args) = None
   \<and> truthy (title_includes falsy_args) = None
   \<and> list_all (\<lambda>c. \<not> prefix ''c.status = '' c) (conditions (compile_filters falsy_args))
   \<and> list_all (\<lambda>c. \<not> prefix ''a.sonolus_handle = '' c) (conditions (compile_filters falsy_args))
   \<and> list_all (\<lambda>c. \<not> prefix ''c.tags @> '' c) (conditions (compile_filters falsy_args))
   \<and> list_all (\<lambda>c. \<not> prefix ''LOWER(c.title) LIKE '' c) (conditions (compile_filters falsy_args))"
proof -
  have h: "truthy (status falsy_args) = None" "truthy_int (sonolus_handle_is falsy_args) = None"
    "truthy (tags falsy_args) = None" "truthy (title_includes falsy_args) = None"
    by (simp_all add: falsy_args_def truthy_int_def)
  from falsy_arguments_are_absent [of falsy_args] h show ?thesis by blast
qed

end
